theory Spec2Isabelle
  imports Complex_Main "HOL-Library.Log_Nat"
begin

section \<open>Python strings and regular expressions\<close>

text \<open>
  The three source files (\<^verbatim>\<open>vectorflow.py\<close>, \<^verbatim>\<open>a.py\<close>, \<^verbatim>\<open>b.py\<close>) parse a prompt with
  \<^verbatim>\<open>str.lower\<close>, \<^verbatim>\<open>re.search\<close>, \<^verbatim>\<open>re.findall\<close> and the substring test \<^verbatim>\<open>in\<close>.
  A \<open>char\<close> stands for the code point of the same number, 0 to 255, and the character
  classes below are Python's Unicode classes on these code points. A prompt with a code
  point above 255 is outside the model.
\<close>

definition is_digit :: "char \<Rightarrow> bool" where
  "is_digit c = (48 \<le> (of_char c :: nat) \<and> (of_char c :: nat) \<le> 57)"

text \<open>The characters \<^verbatim>\<open>str.lower\<close> changes: A to Z, and the capital letters 192 to 214
  and 216 to 222.\<close>

definition is_upper :: "char \<Rightarrow> bool" where
  "is_upper c = ((65 \<le> (of_char c :: nat) \<and> (of_char c :: nat) \<le> 90)
     \<or> (192 \<le> (of_char c :: nat) \<and> (of_char c :: nat) \<le> 214)
     \<or> (216 \<le> (of_char c :: nat) \<and> (of_char c :: nat) \<le> 222))"

definition is_lower :: "char \<Rightarrow> bool" where
  "is_lower c = (97 \<le> (of_char c :: nat) \<and> (of_char c :: nat) \<le> 122)"

text \<open>The word characters from 128 on: the ordinal indicators 170 and 186, the
  superscript digits 178, 179 and 185, the micro sign 181, the fractions 188 to 190, and
  the letters 192 to 255 without the signs 215 and 247.\<close>

definition is_high_word :: "char \<Rightarrow> bool" where
  "is_high_word c =
     ((of_char c :: nat) = 170 \<or> (of_char c :: nat) = 178 \<or> (of_char c :: nat) = 179
      \<or> (of_char c :: nat) = 181 \<or> (of_char c :: nat) = 185 \<or> (of_char c :: nat) = 186
      \<or> (188 \<le> (of_char c :: nat) \<and> (of_char c :: nat) \<le> 190)
      \<or> (192 \<le> (of_char c :: nat) \<and> (of_char c :: nat) \<le> 214)
      \<or> (216 \<le> (of_char c :: nat) \<and> (of_char c :: nat) \<le> 246)
      \<or> 248 \<le> (of_char c :: nat))"

text \<open>\<^verbatim>\<open>\w\<close>: letters, digits and the underscore.\<close>

definition is_word :: "char \<Rightarrow> bool" where
  "is_word c = (is_digit c \<or> (65 \<le> (of_char c :: nat) \<and> (of_char c :: nat) \<le> 90)
     \<or> is_lower c \<or> (of_char c :: nat) = 95 \<or> is_high_word c)"

text \<open>\<^verbatim>\<open>\s\<close>: tab, line feed, vertical tab, form feed, carriage return, the four
  separators 28 to 31, the space, the next-line character 133 and the no-break space
  160.\<close>

definition is_space :: "char \<Rightarrow> bool" where
  "is_space c = ((9 \<le> (of_char c :: nat) \<and> (of_char c :: nat) \<le> 13)
     \<or> (28 \<le> (of_char c :: nat) \<and> (of_char c :: nat) \<le> 32)
     \<or> (of_char c :: nat) = 133 \<or> (of_char c :: nat) = 160)"

definition lower_char :: "char \<Rightarrow> char" where
  "lower_char c = (if is_upper c then char_of ((of_char c :: nat) + 32) else c)"

text \<open>\<^verbatim>\<open>prompt.lower()\<close>\<close>

definition lower :: "string \<Rightarrow> string" where
  "lower s = map lower_char s"

text \<open>\<^verbatim>\<open>sub in s\<close>\<close>

fun str_contains :: "string \<Rightarrow> string \<Rightarrow> bool" where
  "str_contains w [] = (w = [])"
| "str_contains w (x # xs) = (take (length w) (x # xs) = w \<or> str_contains w xs)"

text \<open>\<^verbatim>\<open>int(m.group(1))\<close> on a string of decimal digits.\<close>

definition digit_val :: "char \<Rightarrow> int" where
  "digit_val c = int (of_char c) - 48"

definition int_of_digits :: "string \<Rightarrow> int" where
  "int_of_digits s = foldl (\<lambda>a c. 10 * a + digit_val c) 0 s"

subsection \<open>Patterns\<close>

text \<open>
  The constructs that occur in the patterns of the source: a literal, the classes
  \<^verbatim>\<open>\d\<close>, \<^verbatim>\<open>\s\<close> and \<^verbatim>\<open>[...]\<close>, the assertion \<^verbatim>\<open>\b\<close>, concatenation, alternation,
  the greedy \<^verbatim>\<open>?\<close>, \<^verbatim>\<open>*\<close> and \<^verbatim>\<open>+\<close>, and a numbered capture group. \<^verbatim>\<open>(?:...)\<close> groups
  without capturing and is plain nesting here.
\<close>

datatype regex =
    Lit string
  | Digit
  | Space
  | OneOf string
  | WordB
  | Seq regex regex
  | Alt regex regex
  | Opt regex
  | Star regex
  | Plus regex
  | Group nat regex

fun cat :: "regex list \<Rightarrow> regex" where
  "cat [] = Lit []"
| "cat [r] = r"
| "cat (r # rs) = Seq r (cat rs)"

text \<open>
  A matcher state: whether the character before the current position is a word character
  (False at the start of the string), the rest of the subject, and the groups captured so
  far (the latest capture of a group first).
\<close>

type_synonym captures = "(nat \<times> string) list"
type_synonym mstate = "bool \<times> string \<times> captures"

fun one_char :: "(char \<Rightarrow> bool) \<Rightarrow> mstate \<Rightarrow> mstate list" where
  "one_char P (b, [], c) = []"
| "one_char P (b, x # xs, c) = (if P x then [(is_word x, xs, c)] else [])"

fun lit :: "string \<Rightarrow> mstate \<Rightarrow> mstate list" where
  "lit [] st = [st]"
| "lit (y # ys) (b, [], c) = []"
| "lit (y # ys) (b, x # xs, c) = (if x = y then lit ys (is_word x, xs, c) else [])"

text \<open>\<^verbatim>\<open>\b\<close> holds where exactly one of the two neighbouring characters is a word
  character; beyond either end of the string there is none.\<close>

fun at_boundary :: "mstate \<Rightarrow> bool" where
  "at_boundary (b, [], c) = b"
| "at_boundary (b, x # xs, c) = (b \<noteq> is_word x)"

fun rest_len :: "mstate \<Rightarrow> nat" where
  "rest_len (b, s, c) = length s"

text \<open>
  Greedy repetition of a one-step matcher \<open>f\<close>: every way to run one more iteration, in
  the order of \<open>f\<close>, each continued recursively, and last the way that stops here. An
  iteration has to consume a character, so a subject of \<open>n\<close> characters needs at most
  \<open>n\<close> iterations: that is the first argument.
\<close>

fun star_iter :: "nat \<Rightarrow> (mstate \<Rightarrow> mstate list) \<Rightarrow> mstate \<Rightarrow> mstate list" where
  "star_iter 0 f st = [st]"
| "star_iter (Suc n) f st =
     concat (map (star_iter n f) (filter (\<lambda>st'. rest_len st' < rest_len st) (f st))) @ [st]"

fun capture :: "nat \<Rightarrow> mstate \<Rightarrow> mstate \<Rightarrow> mstate" where
  "capture k (b, s, c) (b', s', c') = (b', s', (k, take (length s - length s') s) # c')"

text \<open>
  The backtracking matcher: all the ways the pattern matches at the current position,
  in the order Python's engine tries them (the left alternative first, the longest
  repetition first). The first one is the match \<^verbatim>\<open>re\<close> reports.
\<close>

primrec matches :: "regex \<Rightarrow> mstate \<Rightarrow> mstate list" where
  "matches (Lit w) st = lit w st"
| "matches Digit st = one_char is_digit st"
| "matches Space st = one_char is_space st"
| "matches (OneOf cs) st = one_char (\<lambda>x. x \<in> set cs) st"
| "matches WordB st = (if at_boundary st then [st] else [])"
| "matches (Seq r1 r2) st = concat (map (matches r2) (matches r1 st))"
| "matches (Alt r1 r2) st = matches r1 st @ matches r2 st"
| "matches (Opt r) st = matches r st @ [st]"
| "matches (Star r) st = star_iter (rest_len st) (matches r) st"
| "matches (Plus r) st = concat (map (\<lambda>st'. star_iter (rest_len st') (matches r) st') (matches r st))"
| "matches (Group k r) st = map (capture k st) (matches r st)"

text \<open>\<^verbatim>\<open>re.search\<close>: the first match at the leftmost position that has one; the result
  is the groups it captured.\<close>

fun search_from :: "regex \<Rightarrow> bool \<Rightarrow> string \<Rightarrow> captures option" where
  "search_from r b [] =
     (case matches r (b, [], []) of [] \<Rightarrow> None | (b', s', c) # _ \<Rightarrow> Some c)"
| "search_from r b (x # xs) =
     (case matches r (b, x # xs, []) of
        [] \<Rightarrow> search_from r (is_word x) xs
      | (b', s', c) # _ \<Rightarrow> Some c)"

definition re_search :: "regex \<Rightarrow> string \<Rightarrow> captures option" where
  "re_search r s = search_from r False s"

text \<open>\<^verbatim>\<open>m.group(k)\<close>: None for a group that took no part in the match.\<close>

definition mgroup :: "captures \<Rightarrow> nat \<Rightarrow> string option" where
  "mgroup c k = map_of c k"

text \<open>\<^verbatim>\<open>m.groups()\<close> for a pattern with groups 1 to \<open>n\<close>.\<close>

definition mgroups :: "nat \<Rightarrow> captures \<Rightarrow> string option list" where
  "mgroups n c = map (mgroup c) [1..<Suc n]"

text \<open>
  \<^verbatim>\<open>re.findall\<close>: the matches from left to right, each search starting where the match
  before ended (one character further after an empty match).
\<close>

function findall_from :: "regex \<Rightarrow> bool \<Rightarrow> string \<Rightarrow> captures list" where
  "findall_from r b s =
     (case matches r (b, s, []) of
        [] \<Rightarrow> (case s of [] \<Rightarrow> [] | x # xs \<Rightarrow> findall_from r (is_word x) xs)
      | (b', s', c) # _ \<Rightarrow>
          (if length s' < length s then c # findall_from r b' s'
           else c # (case s of [] \<Rightarrow> [] | x # xs \<Rightarrow> findall_from r (is_word x) xs)))"
  by pat_completeness auto
termination
  by (relation "measure (\<lambda>(r, b, s). length s)") auto

declare findall_from.simps [simp del]

text \<open>For a pattern with exactly one group \<^verbatim>\<open>re.findall\<close> returns the list of that
  group's texts.\<close>

definition re_findall1 :: "regex \<Rightarrow> string \<Rightarrow> string list" where
  "re_findall1 r s = map (\<lambda>c. case mgroup c 1 of None \<Rightarrow> [] | Some t \<Rightarrow> t) (findall_from r False s)"

section \<open>Python numbers and errors\<close>

datatype error = ValueError | TypeError | KeyError | OverflowError | ZeroDivisionError

text \<open>Sequencing of computations that may raise: an error ends the computation.\<close>

fun and_then :: "error + 'a \<Rightarrow> ('a \<Rightarrow> error + 'b) \<Rightarrow> error + 'b" where
  "and_then (Inl e) f = Inl e"
| "and_then (Inr x) f = f x"

fun map_err :: "('a \<Rightarrow> error + 'b) \<Rightarrow> 'a list \<Rightarrow> error + 'b list" where
  "map_err f [] = Inr []"
| "map_err f (x # xs) = and_then (f x) (\<lambda>y. and_then (map_err f xs) (\<lambda>ys. Inr (y # ys)))"

text \<open>
  A Python \<^verbatim>\<open>int\<close> is an \<open>int\<close>. A Python \<^verbatim>\<open>float\<close> is the real number it stands for, and
  arithmetic between floats is taken exact. The conversion of an \<^verbatim>\<open>int\<close> to a \<^verbatim>\<open>float\<close>
  (\<^verbatim>\<open>float(n)\<close>, and an \<^verbatim>\<open>int\<close> operand of a float operation) is modelled as CPython does
  it: the value is rounded to 53 significant bits, a tie to the even neighbour, and an
  \<^verbatim>\<open>int\<close> that rounds to \<open>2 ^ 1024\<close> or more raises \<^verbatim>\<open>OverflowError\<close>.
\<close>

definition dbl_overflow :: int where
  "dbl_overflow = 2 ^ 1024 - 2 ^ 970"

definition round53 :: "int \<Rightarrow> int" where
  "round53 n =
     (let a = \<bar>n\<bar>; k = bitlen a - 53 in
      if k \<le> 0 then n
      else
        let q = a div 2 ^ nat k; r = a mod 2 ^ nat k; h = 2 ^ (nat k - 1);
            q' = (if h < r \<or> (r = h \<and> odd q) then q + 1 else q)
        in sgn n * (q' * 2 ^ nat k))"

definition float_of_int :: "int \<Rightarrow> error + real" where
  "float_of_int n =
     (if dbl_overflow \<le> \<bar>n\<bar> then Inl OverflowError else Inr (real_of_int (round53 n)))"

text \<open>\<^verbatim>\<open>int(x)\<close> of a float truncates towards zero.\<close>

definition int_of_float :: "real \<Rightarrow> int" where
  "int_of_float x = (if 0 \<le> x then \<lfloor>x\<rfloor> else \<lceil>x\<rceil>)"

text \<open>\<^verbatim>\<open>a / b\<close> on two \<^verbatim>\<open>int\<close>s: the quotient as a float, with no conversion of the
  operands; it raises when \<open>b\<close> is zero or the quotient is out of the float range.\<close>

definition int_truediv :: "int \<Rightarrow> int \<Rightarrow> error + real" where
  "int_truediv a b =
     (if b = 0 then Inl ZeroDivisionError
      else if real_of_int dbl_overflow \<le> \<bar>real_of_int a / real_of_int b\<bar> then Inl OverflowError
      else Inr (real_of_int a / real_of_int b))"

section \<open>The part parameters\<close>

text \<open>
  \<^verbatim>\<open>params\<close> is a dictionary with string keys. A field is \<open>None\<close> when the key is not
  in the dictionary. The key \<^verbatim>\<open>length\<close> is the field \<open>length_mm\<close>.
\<close>

record params =
  part_type :: "string option"
  length_mm :: "int option"
  width :: "int option"
  thickness :: "int option"
  hole_count :: "int option"
  hole_diameter :: "int option"
  material :: "string option"
  target_force_n :: "int option"
  width_left :: "int option"
  width_right :: "int option"
  rect_width :: "int option"
  rect_height :: "int option"
  circle_diameter :: "int option"

definition empty_params :: params where
  "empty_params = \<lparr>part_type = None, length_mm = None, width = None, thickness = None,
     hole_count = None, hole_diameter = None, material = None, target_force_n = None,
     width_left = None, width_right = None, rect_width = None, rect_height = None,
     circle_diameter = None\<rparr>"

text \<open>\<^verbatim>\<open>params.get(key, default)\<close> and \<^verbatim>\<open>params[key]\<close>\<close>

fun get_or :: "'a option \<Rightarrow> 'a \<Rightarrow> 'a" where
  "get_or None d = d"
| "get_or (Some v) d = v"

fun item :: "'a option \<Rightarrow> error + 'a" where
  "item None = Inl KeyError"
| "item (Some v) = Inr v"

section \<open>The prompt parser of vectorflow.py and a.py\<close>

text \<open>
  \<^verbatim>\<open>a.py\<close> is \<^verbatim>\<open>vectorflow.py\<close> with comments added: the definitions with the suffix
  \<open>_vf\<close> embed both. The patterns, in the order of the source:
  \<^verbatim>\<open>\barm\b\<close>, \<^verbatim>\<open>\bl-?bracket\b|\bl bracket\b\<close>, \<^verbatim>\<open>\bplate\b\<close>, \<^verbatim>\<open>\brectangl|bar\b\<close>,
  \<^verbatim>\<open>\btrapezoid\b|\bbracket\b\<close>, \<^verbatim>\<open>(\d+)\s*mm\<close>, \<^verbatim>\<open>(\d+)\s*(?:long|length|l\b)\<close>,
  \<^verbatim>\<open>width(?:\s*[:=]?\s*|of\s*)(\d+)\s*mm\<close>, \<^verbatim>\<open>thickness\s*[:=]?\s*(\d+)\s*mm\<close>,
  \<^verbatim>\<open>(\d+)\s*[- ]?bolt|\b(\d+)\s*holes?\b\<close>, \<^verbatim>\<open>(\d+)-bolt\<close>,
  \<^verbatim>\<open>(\d+)\s*mm\s*(?:hole|diameter|dia)\<close> and \<^verbatim>\<open>supports\s*(?:up to\s*)?(\d+)\s*n\<close>.
\<close>

definition pat_arm :: regex where
  "pat_arm = cat [WordB, Lit ''arm'', WordB]"

definition pat_l_bracket :: regex where
  "pat_l_bracket =
     Alt (cat [WordB, Lit ''l'', Opt (Lit ''-''), Lit ''bracket'', WordB])
         (cat [WordB, Lit ''l bracket'', WordB])"

definition pat_plate :: regex where
  "pat_plate = cat [WordB, Lit ''plate'', WordB]"

definition pat_rectangle :: regex where
  "pat_rectangle = Alt (cat [WordB, Lit ''rectangl'']) (cat [Lit ''bar'', WordB])"

definition pat_trapezoid :: regex where
  "pat_trapezoid =
     Alt (cat [WordB, Lit ''trapezoid'', WordB]) (cat [WordB, Lit ''bracket'', WordB])"

definition pat_mm :: regex where
  "pat_mm = cat [Group 1 (Plus Digit), Star Space, Lit ''mm'']"

definition pat_long :: regex where
  "pat_long =
     cat [Group 1 (Plus Digit), Star Space,
          Alt (Lit ''long'') (Alt (Lit ''length'') (Seq (Lit ''l'') WordB))]"

definition pat_width_mm :: regex where
  "pat_width_mm =
     cat [Lit ''width'',
          Alt (cat [Star Space, Opt (OneOf '':=''), Star Space]) (cat [Lit ''of'', Star Space]),
          Group 1 (Plus Digit), Star Space, Lit ''mm'']"

definition pat_thickness_mm :: regex where
  "pat_thickness_mm =
     cat [Lit ''thickness'', Star Space, Opt (OneOf '':=''), Star Space,
          Group 1 (Plus Digit), Star Space, Lit ''mm'']"

definition pat_holes :: regex where
  "pat_holes =
     Alt (cat [Group 1 (Plus Digit), Star Space, Opt (OneOf ''- ''), Lit ''bolt''])
         (cat [WordB, Group 2 (Plus Digit), Star Space, Lit ''hole'', Opt (Lit ''s''), WordB])"

definition pat_bolt :: regex where
  "pat_bolt = cat [Group 1 (Plus Digit), Lit ''-bolt'']"

definition pat_hole_diameter :: regex where
  "pat_hole_diameter =
     cat [Group 1 (Plus Digit), Star Space, Lit ''mm'', Star Space,
          Alt (Lit ''hole'') (Alt (Lit ''diameter'') (Lit ''dia''))]"

definition pat_supports :: regex where
  "pat_supports =
     cat [Lit ''supports'', Star Space, Opt (cat [Lit ''up to'', Star Space]),
          Group 1 (Plus Digit), Star Space, Lit ''n'']"

text \<open>\<^verbatim>\<open>int(m.group(1))\<close> after a match of a pattern whose group 1 always takes part.\<close>

definition group1_int :: "captures \<Rightarrow> int" where
  "group1_int c = int_of_digits (get_or (mgroup c 1) [])"

definition part_type_vf :: "string \<Rightarrow> string" where
  "part_type_vf p =
     (if re_search pat_arm p \<noteq> None then ''arm''
      else if re_search pat_l_bracket p \<noteq> None then ''l_bracket''
      else if re_search pat_plate p \<noteq> None then ''circle''
      else if re_search pat_rectangle p \<noteq> None then ''rectangle''
      else if re_search pat_trapezoid p \<noteq> None then ''trapezoid''
      else ''trapezoid'')"

definition length_vf :: "string \<Rightarrow> int" where
  "length_vf p =
     (case re_search pat_mm p of
        Some m \<Rightarrow> group1_int m
      | None \<Rightarrow> (case re_search pat_long p of Some m2 \<Rightarrow> group1_int m2 | None \<Rightarrow> 120))"

definition width_vf :: "string \<Rightarrow> int" where
  "width_vf p =
     (case re_search pat_width_mm p of
        Some m \<Rightarrow> group1_int m
      | None \<Rightarrow>
          (let mm_all = re_findall1 pat_mm p
           in if 2 \<le> length mm_all then int_of_digits (mm_all ! 1) else 40))"

definition thickness_vf :: "string \<Rightarrow> int" where
  "thickness_vf p =
     (case re_search pat_thickness_mm p of Some m \<Rightarrow> group1_int m | None \<Rightarrow> 5)"

text \<open>\<^verbatim>\<open>nums = [g for g in m.groups() if g is not None]\<close>, then
  \<^verbatim>\<open>int(nums[0]) if nums else 0\<close>.\<close>

definition hole_count_vf :: "string \<Rightarrow> int" where
  "hole_count_vf p =
     (case re_search pat_holes p of
        Some m \<Rightarrow>
          (case List.map_filter (\<lambda>g. g) (mgroups 2 m) of
             [] \<Rightarrow> 0
           | g # _ \<Rightarrow> int_of_digits g)
      | None \<Rightarrow> (case re_search pat_bolt p of Some m2 \<Rightarrow> group1_int m2 | None \<Rightarrow> 3))"

definition hole_diameter_vf :: "string \<Rightarrow> int" where
  "hole_diameter_vf p =
     (case re_search pat_hole_diameter p of Some m \<Rightarrow> group1_int m | None \<Rightarrow> 6)"

definition material_of :: "string \<Rightarrow> string" where
  "material_of p =
     (if str_contains ''steel'' p then ''steel''
      else if str_contains ''aluminium'' p \<or> str_contains ''aluminum'' p then ''aluminum''
      else ''aluminum'')"

definition target_force_of :: "string \<Rightarrow> int" where
  "target_force_of p =
     (case re_search pat_supports p of Some m \<Rightarrow> group1_int m | None \<Rightarrow> 2000)"

text \<open>\<^verbatim>\<open>int(w * 0.5)\<close> for an \<^verbatim>\<open>int\<close> \<open>w\<close>: \<open>w\<close> becomes a float, the product with
  0.5 is exact, and \<^verbatim>\<open>int\<close> truncates.\<close>

definition half_int :: "int \<Rightarrow> error + int" where
  "half_int w = and_then (float_of_int w) (\<lambda>x. Inr (int_of_float (x * 0.5)))"

text \<open>
  The shape-specific fields, lines 66 to 74 of \<^verbatim>\<open>vectorflow.py\<close>. The loop that follows
  in the source turns values that are digit strings into numbers; the only string values
  are those of \<^verbatim>\<open>part_type\<close> and \<^verbatim>\<open>material\<close>, none of which is a digit string, so it
  changes nothing.
\<close>

definition resolve_vf :: "params \<Rightarrow> error + params" where
  "resolve_vf ps =
     (if part_type ps = Some ''arm'' \<or> part_type ps = Some ''trapezoid'' then
        (let ps1 = ps\<lparr>length_mm := Some (get_or (length_mm ps) 150)\<rparr>;
             ps2 = ps1\<lparr>width_left := Some (get_or (width ps1) 50)\<rparr>
         in and_then (item (width_left ps2)) (\<lambda>wl.
            and_then (half_int wl) (\<lambda>h.
            Inr (ps2\<lparr>width_right := Some (max 10 h)\<rparr>))))
      else if part_type ps = Some ''rectangle'' then
        Inr (ps\<lparr>rect_width := Some (get_or (width ps) 40),
                rect_height := Some (get_or (thickness ps) 5)\<rparr>)
      else if part_type ps = Some ''circle'' then
        Inr (ps\<lparr>circle_diameter := Some (get_or (length_mm ps) 80)\<rparr>)
      else Inr ps)"

definition parse_prompt_vf :: "string \<Rightarrow> error + params" where
  "parse_prompt_vf prompt =
     (let p = lower prompt
      in resolve_vf (empty_params\<lparr>
           part_type := Some (part_type_vf p),
           length_mm := Some (length_vf p),
           width := Some (width_vf p),
           thickness := Some (thickness_vf p),
           hole_count := Some (hole_count_vf p),
           hole_diameter := Some (hole_diameter_vf p),
           material := Some (material_of p),
           target_force_n := Some (target_force_of p)\<rparr>))"

section \<open>The prompt parser of b.py\<close>

text \<open>
  \<^verbatim>\<open>b.py\<close> starts from a dictionary of defaults, tests the part type with the substring
  operator \<^verbatim>\<open>in\<close>, and uses the patterns \<^verbatim>\<open>(\d+)\s*m*m\<close>,
  \<^verbatim>\<open>width(?:\s*[:=]?\s*|of\s*)(\d+)\<close>, \<^verbatim>\<open>thickness\s*[:=]?\s*(\d+)\<close> and
  \<^verbatim>\<open>diameter\s*(\d+)\<close>; the patterns for the holes and the target force are those of
  \<^verbatim>\<open>vectorflow.py\<close>.
\<close>

definition pat_dims_b :: regex where
  "pat_dims_b = cat [Group 1 (Plus Digit), Star Space, Star (Lit ''m''), Lit ''m'']"

definition pat_width_b :: regex where
  "pat_width_b =
     cat [Lit ''width'',
          Alt (cat [Star Space, Opt (OneOf '':=''), Star Space]) (cat [Lit ''of'', Star Space]),
          Group 1 (Plus Digit)]"

definition pat_thickness_b :: regex where
  "pat_thickness_b =
     cat [Lit ''thickness'', Star Space, Opt (OneOf '':=''), Star Space, Group 1 (Plus Digit)]"

definition pat_diameter_b :: regex where
  "pat_diameter_b = cat [Lit ''diameter'', Star Space, Group 1 (Plus Digit)]"

definition defaults_b :: params where
  "defaults_b = empty_params\<lparr>
     part_type := Some ''trapezoid'', length_mm := Some 120, width := Some 40,
     thickness := Some 5, hole_count := Some 3, hole_diameter := Some 6,
     material := Some ''aluminum'', target_force_n := Some 2000\<rparr>"

definition part_type_b :: "string \<Rightarrow> params \<Rightarrow> params" where
  "part_type_b p ps =
     (if str_contains ''arm'' p then ps\<lparr>part_type := Some ''arm''\<rparr>
      else if str_contains ''l-bracket'' p \<or> str_contains ''l bracket'' p
        then ps\<lparr>part_type := Some ''l_bracket''\<rparr>
      else if str_contains ''plate'' p then ps\<lparr>part_type := Some ''circle''\<rparr>
      else if str_contains ''rectangle'' p \<or> str_contains ''bar'' p
        then ps\<lparr>part_type := Some ''rectangle''\<rparr>
      else if str_contains ''trapezoid'' p \<or> str_contains ''bracket'' p
        then ps\<lparr>part_type := Some ''trapezoid''\<rparr>
      else ps)"

definition dims_b :: "string \<Rightarrow> params \<Rightarrow> params" where
  "dims_b p ps =
     (let dims = re_findall1 pat_dims_b p;
          ps1 = (if 1 \<le> length dims then ps\<lparr>length_mm := Some (int_of_digits (dims ! 0))\<rparr> else ps);
          ps2 = (if 2 \<le> length dims then ps1\<lparr>width := Some (int_of_digits (dims ! 1))\<rparr> else ps1);
          ps3 = (case re_search pat_width_b p of
                   Some m \<Rightarrow> ps2\<lparr>width := Some (group1_int m)\<rparr> | None \<Rightarrow> ps2);
          ps4 = (case re_search pat_thickness_b p of
                   Some m \<Rightarrow> ps3\<lparr>thickness := Some (group1_int m)\<rparr> | None \<Rightarrow> ps3)
      in (case re_search pat_diameter_b p of
            Some m \<Rightarrow> ps4\<lparr>circle_diameter := Some (group1_int m)\<rparr> | None \<Rightarrow> ps4))"

definition holes_b :: "string \<Rightarrow> params \<Rightarrow> params" where
  "holes_b p ps =
     (let ps1 = (case re_search pat_holes p of
                   Some m \<Rightarrow>
                     ps\<lparr>hole_count := Some (case List.map_filter (\<lambda>g. g) (mgroups 2 m) of
                                               [] \<Rightarrow> 0 | g # _ \<Rightarrow> int_of_digits g)\<rparr>
                 | None \<Rightarrow> ps)
      in (case re_search pat_hole_diameter p of
            Some m \<Rightarrow> ps1\<lparr>hole_diameter := Some (group1_int m)\<rparr> | None \<Rightarrow> ps1))"

definition material_b :: "string \<Rightarrow> params \<Rightarrow> params" where
  "material_b p ps =
     (if str_contains ''steel'' p then ps\<lparr>material := Some ''steel''\<rparr>
      else if str_contains ''aluminium'' p \<or> str_contains ''aluminum'' p
        then ps\<lparr>material := Some ''aluminum''\<rparr>
      else ps)"

definition target_force_b :: "string \<Rightarrow> params \<Rightarrow> params" where
  "target_force_b p ps =
     (case re_search pat_supports p of
        Some m \<Rightarrow> ps\<lparr>target_force_n := Some (group1_int m)\<rparr> | None \<Rightarrow> ps)"

text \<open>Lines 69 to 75 of \<^verbatim>\<open>b.py\<close>: the shape-specific fields, read with \<^verbatim>\<open>params[...]\<close>.\<close>

definition resolve_b :: "params \<Rightarrow> error + params" where
  "resolve_b ps =
     and_then (item (part_type ps)) (\<lambda>pt.
       if pt = ''arm'' \<or> pt = ''trapezoid'' then
         and_then (item (width ps)) (\<lambda>w.
         and_then (half_int w) (\<lambda>h.
         Inr (ps\<lparr>width_left := Some w, width_right := Some (max 10 h)\<rparr>)))
       else if pt = ''rectangle'' then
         and_then (item (width ps)) (\<lambda>w. Inr (ps\<lparr>rect_width := Some w\<rparr>))
       else if pt = ''circle'' then
         and_then (item (length_mm ps)) (\<lambda>l. Inr (ps\<lparr>circle_diameter := Some l\<rparr>))
       else Inr ps)"

definition parse_prompt_b :: "string \<Rightarrow> error + params" where
  "parse_prompt_b prompt =
     (let p = lower prompt
      in resolve_b (target_force_b p (material_b p (holes_b p (dims_b p (part_type_b p defaults_b))))))"

section \<open>Geometry\<close>

text \<open>
  What \<^verbatim>\<open>generate_2d_preview\<close> hands to matplotlib is the list of patches it adds to the
  axes, in the order it adds them: the outline in light grey, then one white circle for
  each hole. What \<^verbatim>\<open>build_scad\<close> returns is a SolidPython object. Drawing, saving and
  rendering are done by the libraries and are not modelled; the numbers the source
  computes for them are, with the errors their computation can raise.
\<close>

datatype face = LightGrey | White

datatype patch =
    Polygon "(real \<times> real) list" face
  | Rectangle "real \<times> real" real real face
  | Circle "real \<times> real" real face

datatype shape2d = polygon "(real \<times> real) list" | circle real nat

datatype solid =
    linear_extrude real shape2d
  | cube real real real
  | cylinder real real
  | translate "real \<times> real \<times> real" solid
  | union "solid list"
  | difference solid solid

text \<open>\<^verbatim>\<open>range(n)\<close>\<close>

definition py_range :: "int \<Rightarrow> int list" where
  "py_range n = map int [0..<nat n]"

text \<open>The centres of the holes of a preview, and the positions of the through-cuts of a
  solid.\<close>

fun hole_centre :: "patch \<Rightarrow> (real \<times> real) option" where
  "hole_centre (Circle xy r White) = Some xy"
| "hole_centre _ = None"

definition preview_holes :: "patch list \<Rightarrow> (real \<times> real) list" where
  "preview_holes ps = List.map_filter hole_centre ps"

fun cut_position :: "solid \<Rightarrow> (real \<times> real) option" where
  "cut_position (translate (x, y, z) (cylinder r h)) = Some (x, y)"
| "cut_position _ = None"

fun solid_cuts :: "solid \<Rightarrow> (real \<times> real) list" where
  "solid_cuts (difference base (union hs)) = List.map_filter cut_position hs"
| "solid_cuts _ = []"

subsection \<open>vectorflow.py and a.py\<close>

definition generate_2d_preview_vf :: "params \<Rightarrow> error + patch list" where
  "generate_2d_preview_vf ps =
     and_then (item (part_type ps)) (\<lambda>ptype.
       if ptype = ''arm'' \<or> ptype = ''trapezoid'' then
         and_then (item (length_mm ps)) (\<lambda>L.
         and_then (item (width_left ps)) (\<lambda>wL.
         and_then (item (width_right ps)) (\<lambda>wR.
         let hc = get_or (hole_count ps) 0 in
         and_then (float_of_int (get_or (hole_diameter ps) 6)) (\<lambda>hd.
         and_then (map_err (\<lambda>i.
             and_then (int_truediv ((i + 1) * L) (hc + 1)) (\<lambda>x.
             and_then (float_of_int (wL + wR)) (\<lambda>w.
             Inr (Circle (x, w / 4) (hd / 2) White)))) (py_range hc)) (\<lambda>holes.
         Inr (Polygon [(0, 0), (real_of_int L, 0), (real_of_int L, real_of_int wR),
                       (0, real_of_int wL)] LightGrey # holes))))))
       else if ptype = ''rectangle'' then
         and_then (item (length_mm ps)) (\<lambda>L.
         and_then (item (rect_width ps)) (\<lambda>W.
         let hc = get_or (hole_count ps) 0 in
         and_then (float_of_int (get_or (hole_diameter ps) 6)) (\<lambda>hd.
         and_then (map_err (\<lambda>i.
             and_then (int_truediv ((i + 1) * L) (hc + 1)) (\<lambda>x.
             and_then (float_of_int W) (\<lambda>w.
             Inr (Circle (x, w / 2) (hd / 2) White)))) (py_range hc)) (\<lambda>holes.
         Inr (Rectangle (0, 0) (real_of_int L) (real_of_int W) LightGrey # holes)))))
       else if ptype = ''circle'' then
         and_then (item (circle_diameter ps)) (\<lambda>D.
         and_then (float_of_int D) (\<lambda>d.
         let r = d / 2; hc = get_or (hole_count ps) 0 in
         and_then (float_of_int (get_or (hole_diameter ps) 6)) (\<lambda>hd.
         and_then (if 0 < hc then
             map_err (\<lambda>i.
               and_then (float_of_int i) (\<lambda>fi.
               and_then (float_of_int hc) (\<lambda>fhc.
               let ang = 2 * pi * fi / fhc in
               Inr (Circle (r * 0.5 * cos ang, r * 0.5 * sin ang) (hd / 2) White)))) (py_range hc)
           else Inr []) (\<lambda>holes.
         Inr (Circle (0, 0) r LightGrey # holes)))))
       else Inr [])"

definition hole_obj :: "real \<Rightarrow> real \<Rightarrow> real \<Rightarrow> real \<Rightarrow> solid" where
  "hole_obj x y hole_r th = translate (x, y, -1) (cylinder hole_r (th + 2))"

text \<open>\<^verbatim>\<open>if hole_objs: ... else: part = solid_base\<close>\<close>

definition cut_holes :: "solid \<Rightarrow> solid list \<Rightarrow> solid" where
  "cut_holes solid_base hole_objs =
     (if hole_objs \<noteq> [] then difference solid_base (union hole_objs) else solid_base)"

definition build_scad_vf :: "params \<Rightarrow> error + solid" where
  "build_scad_vf ps =
     and_then (item (part_type ps)) (\<lambda>ptype.
     and_then (float_of_int (get_or (thickness ps) 5)) (\<lambda>th.
       if ptype = ''arm'' \<or> ptype = ''trapezoid'' then
         and_then (item (length_mm ps)) (\<lambda>Li. and_then (float_of_int Li) (\<lambda>L.
         and_then (item (width_left ps)) (\<lambda>wLi. and_then (float_of_int wLi) (\<lambda>wL.
         and_then (item (width_right ps)) (\<lambda>wRi. and_then (float_of_int wRi) (\<lambda>wR.
         let solid_base = linear_extrude th (polygon [(0, 0), (L, 0), (L, wR), (0, wL)]);
             hc = get_or (hole_count ps) 0 in
         and_then (float_of_int (get_or (hole_diameter ps) 6)) (\<lambda>hd.
         and_then (if 0 < hc then
             map_err (\<lambda>i.
               and_then (float_of_int (i + 1)) (\<lambda>fi.
               and_then (float_of_int (hc + 1)) (\<lambda>fn.
               Inr (hole_obj (fi * L / fn) ((wL + wR) / 4) (hd / 2) th)))) (py_range hc)
           else Inr []) (\<lambda>hole_objs.
         Inr (cut_holes solid_base hole_objs)))))))))
       else if ptype = ''rectangle'' then
         and_then (item (length_mm ps)) (\<lambda>Li. and_then (float_of_int Li) (\<lambda>L.
         and_then (item (rect_width ps)) (\<lambda>Wi. and_then (float_of_int Wi) (\<lambda>W.
         let solid_base = linear_extrude th (polygon [(0, 0), (L, 0), (L, W), (0, W)]);
             hc = get_or (hole_count ps) 0 in
         and_then (float_of_int (get_or (hole_diameter ps) 6)) (\<lambda>hd.
         and_then (if 0 < hc then
             map_err (\<lambda>i.
               and_then (float_of_int (i + 1)) (\<lambda>fi.
               and_then (float_of_int (hc + 1)) (\<lambda>fn.
               Inr (hole_obj (fi * L / fn) (W / 2) (hd / 2) th)))) (py_range hc)
           else Inr []) (\<lambda>hole_objs.
         Inr (cut_holes solid_base hole_objs)))))))
       else if ptype = ''circle'' then
         and_then (item (circle_diameter ps)) (\<lambda>Di. and_then (float_of_int Di) (\<lambda>D.
         let r = D / 2;
             solid_base = linear_extrude th (circle r 128);
             hc = get_or (hole_count ps) 0 in
         and_then (float_of_int (get_or (hole_diameter ps) 6)) (\<lambda>hd.
         and_then (if 0 < hc then
             map_err (\<lambda>i.
               and_then (float_of_int i) (\<lambda>fi.
               and_then (float_of_int hc) (\<lambda>fhc.
               let ang = 2 * pi * fi / fhc in
               Inr (hole_obj (r * 0.5 * cos ang) (r * 0.5 * sin ang) (hd / 2) th)))) (py_range hc)
           else Inr []) (\<lambda>hole_objs.
         Inr (cut_holes solid_base hole_objs)))))
       else Inl ValueError))"

subsection \<open>b.py\<close>

text \<open>
  The preview of \<^verbatim>\<open>b.py\<close> is centred on the x axis (trapezoid) or on the origin
  (rectangle). Its annotations are text placed by matplotlib; the quotients computed for
  their positions (\<^verbatim>\<open>L/2\<close>, \<^verbatim>\<open>wL/2\<close>, \<^verbatim>\<open>W/2\<close>) are those of the outline, except \<^verbatim>\<open>L/2\<close>
  of the trapezoid, which is computed here as well so that its error is not lost.
\<close>

definition outline_b :: "params \<Rightarrow> string \<Rightarrow> error + patch list" where
  "outline_b ps ptype =
     (if ptype = ''arm'' \<or> ptype = ''trapezoid'' then
        and_then (item (length_mm ps)) (\<lambda>L.
        and_then (item (width_left ps)) (\<lambda>wL.
        and_then (item (width_right ps)) (\<lambda>wR.
        and_then (int_truediv wL 2) (\<lambda>hl.
        and_then (int_truediv wR 2) (\<lambda>hr.
        and_then (int_truediv L 2) (\<lambda>_.
        Inr [Polygon [(0, hl), (real_of_int L, hr), (real_of_int L, - hr), (0, - hl)] LightGrey]))))))
      else if ptype = ''rectangle'' then
        and_then (item (length_mm ps)) (\<lambda>L.
        and_then (item (rect_width ps)) (\<lambda>W.
        and_then (int_truediv L 2) (\<lambda>hl.
        and_then (int_truediv W 2) (\<lambda>hw.
        Inr [Rectangle (- hl, - hw) (real_of_int L) (real_of_int W) LightGrey]))))
      else if ptype = ''circle'' then
        and_then (item (circle_diameter ps)) (\<lambda>D.
        and_then (float_of_int D) (\<lambda>d.
        Inr [Circle (0, 0) (d / 2) LightGrey]))
      else Inr [])"

definition holes_preview_b :: "params \<Rightarrow> string \<Rightarrow> error + patch list" where
  "holes_preview_b ps ptype =
     (let hc = get_or (hole_count ps) 0 in
      and_then (float_of_int (get_or (hole_diameter ps) 6)) (\<lambda>hd.
        if 0 < hc then
          if ptype = ''arm'' \<or> ptype = ''trapezoid'' then
            and_then (item (length_mm ps)) (\<lambda>L.
            map_err (\<lambda>i.
              and_then (int_truediv ((i + 1) * L) (hc + 1)) (\<lambda>x.
              and_then (item (width_left ps)) (\<lambda>wL.
              and_then (int_truediv wL 2) (\<lambda>a.
              and_then (item (width_right ps)) (\<lambda>wR.
              and_then (int_truediv (wL - wR) 2) (\<lambda>b.
              and_then (int_truediv (i + 1) (hc + 1)) (\<lambda>c.
              Inr (Circle (x, a - b * c) (hd / 2 * 1) White)))))))) (py_range hc))
          else if ptype = ''rectangle'' then
            and_then (item (length_mm ps)) (\<lambda>L.
            map_err (\<lambda>i.
              and_then (int_truediv ((i + 1) * L) (hc + 1)) (\<lambda>x.
              and_then (int_truediv L 2) (\<lambda>hl.
              Inr (Circle (x - hl, 0) (hd / 2 * 1) White)))) (py_range hc))
          else if ptype = ''circle'' then
            and_then (item (circle_diameter ps)) (\<lambda>D.
            and_then (float_of_int D) (\<lambda>d.
            map_err (\<lambda>i.
              and_then (float_of_int i) (\<lambda>fi.
              and_then (float_of_int hc) (\<lambda>fhc.
              let ang = 2 * pi * fi / fhc in
              Inr (Circle (d / 2 * 0.5 * cos ang, d / 2 * 0.5 * sin ang) (hd / 2 * 1) White))))
              (py_range hc)))
          else Inr []
        else Inr []))"

definition generate_2d_preview_b :: "params \<Rightarrow> error + patch list" where
  "generate_2d_preview_b ps =
     and_then (item (part_type ps)) (\<lambda>ptype.
     and_then (outline_b ps ptype) (\<lambda>outline.
     and_then (holes_preview_b ps ptype) (\<lambda>holes.
     Inr (outline @ holes))))"

text \<open>
  \<^verbatim>\<open>build_scad\<close> of \<^verbatim>\<open>b.py\<close> has a branch for \<^verbatim>\<open>l_bracket\<close>. After the branches it
  computes \<^verbatim>\<open>hole_count\<close> and \<^verbatim>\<open>hole_r\<close>, sets \<^verbatim>\<open>hole_objs = []\<close>, and goes on to
  \<^verbatim>\<open>if hole_objs:\<close> with nothing in between but a comment that stands for the hole loops.
  \<^verbatim>\<open>solid_base\<close> is never \<^verbatim>\<open>None\<close> after the branches, so the second \<^verbatim>\<open>raise\<close> of the
  source is never reached.
\<close>

definition build_scad_b :: "params \<Rightarrow> error + solid" where
  "build_scad_b ps =
     and_then (item (part_type ps)) (\<lambda>ptype.
     and_then (float_of_int (get_or (thickness ps) 5)) (\<lambda>th.
     and_then
       (if ptype = ''arm'' \<or> ptype = ''trapezoid'' then
          and_then (item (length_mm ps)) (\<lambda>Li. and_then (float_of_int Li) (\<lambda>L.
          and_then (item (width_left ps)) (\<lambda>wLi. and_then (float_of_int wLi) (\<lambda>wL.
          and_then (item (width_right ps)) (\<lambda>wRi. and_then (float_of_int wRi) (\<lambda>wR.
          Inr (linear_extrude th (polygon [(0, 0), (L, 0), (L, wR), (0, wL)]))))))))
        else if ptype = ''rectangle'' then
          and_then (item (length_mm ps)) (\<lambda>Li. and_then (float_of_int Li) (\<lambda>L.
          and_then (item (rect_width ps)) (\<lambda>Wi. and_then (float_of_int Wi) (\<lambda>W.
          Inr (linear_extrude th (polygon [(0, 0), (L, 0), (L, W), (0, W)]))))))
        else if ptype = ''circle'' then
          and_then (item (circle_diameter ps)) (\<lambda>Di. and_then (float_of_int Di) (\<lambda>D.
          Inr (linear_extrude th (circle (D / 2) 128))))
        else if ptype = ''l_bracket'' then
          (let w = get_or (width ps) 40; l = get_or (length_mm ps) 120 in
           and_then (float_of_int l) (\<lambda>fl.
           and_then (int_truediv l 2) (\<lambda>half_l.
           Inr (union [cube (real_of_int w) (real_of_int l) th,
                       translate (0, fl - th, 0) (cube (real_of_int w) th half_l)]))))
        else Inl ValueError) (\<lambda>solid_base.
     and_then (float_of_int (get_or (hole_diameter ps) 6)) (\<lambda>hd.
     let hole_objs = [] in
     Inr (cut_holes solid_base hole_objs)))))"

section \<open>The structural estimate and the run\<close>

text \<open>A Python number is an \<^verbatim>\<open>int\<close> or a \<^verbatim>\<open>float\<close>; a product of two \<^verbatim>\<open>int\<close>s is an
  \<^verbatim>\<open>int\<close>, any other product converts its \<^verbatim>\<open>int\<close> operand and is a \<^verbatim>\<open>float\<close>.\<close>

datatype pynum = PInt int | PFloat real

fun num_val :: "pynum \<Rightarrow> real" where
  "num_val (PInt i) = real_of_int i"
| "num_val (PFloat x) = x"

fun as_float :: "pynum \<Rightarrow> error + real" where
  "as_float (PInt i) = float_of_int i"
| "as_float (PFloat x) = Inr x"

fun py_mul :: "pynum \<Rightarrow> pynum \<Rightarrow> error + pynum" where
  "py_mul (PInt i) (PInt j) = Inr (PInt (i * j))"
| "py_mul a b = and_then (as_float a) (\<lambda>x. and_then (as_float b) (\<lambda>y. Inr (PFloat (x * y))))"

text \<open>\<^verbatim>\<open>a >= b\<close> compares the exact values, also between an \<^verbatim>\<open>int\<close> and a \<^verbatim>\<open>float\<close>.\<close>

definition py_ge :: "pynum \<Rightarrow> pynum \<Rightarrow> bool" where
  "py_ge a b = (num_val b \<le> num_val a)"

record report =
  net_area_mm2 :: pynum
  thickness_mm :: int
  volume_cm3 :: real
  weight_g :: real
  max_force_n :: pynum
  status :: string

text \<open>The trapezoid area \<^verbatim>\<open>0.5 * (wl + wr) * L\<close> and the disk area
  \<^verbatim>\<open>math.pi * (d/2.0)**2\<close>, the same in the three files. A float power that is out of
  the float range raises \<^verbatim>\<open>OverflowError\<close>; a float product does not.\<close>

definition trapezoid_area :: "params \<Rightarrow> error + pynum" where
  "trapezoid_area ps =
     and_then (item (width_left ps)) (\<lambda>wl.
     and_then (item (width_right ps)) (\<lambda>wr.
     and_then (float_of_int (wl + wr)) (\<lambda>w.
     and_then (item (length_mm ps)) (\<lambda>L.
     and_then (float_of_int L) (\<lambda>l.
     Inr (PFloat (0.5 * w * l)))))))"

definition rectangle_area :: "params \<Rightarrow> error + pynum" where
  "rectangle_area ps =
     and_then (item (length_mm ps)) (\<lambda>L.
     and_then (item (rect_width ps)) (\<lambda>W.
     Inr (PInt (L * W))))"

definition circle_area :: "params \<Rightarrow> error + pynum" where
  "circle_area ps =
     and_then (item (circle_diameter ps)) (\<lambda>D.
     and_then (float_of_int D) (\<lambda>d.
     if real_of_int dbl_overflow \<le> (d / 2) ^ 2 then Inl OverflowError
     else Inr (PFloat (pi * (d / 2) ^ 2))))"

text \<open>Lines 191 to 203 of \<^verbatim>\<open>vectorflow.py\<close> (269 to 283 of \<^verbatim>\<open>a.py\<close>).\<close>

definition estimate_vf :: "params \<Rightarrow> error + report" where
  "estimate_vf ps =
     and_then (item (part_type ps)) (\<lambda>ptype.
     and_then (if ptype = ''arm'' \<or> ptype = ''trapezoid'' then trapezoid_area ps
               else if ptype = ''rectangle'' then rectangle_area ps
               else circle_area ps) (\<lambda>net_area.
     let th = get_or (thickness ps) 5 in
     and_then (py_mul net_area (PInt th)) (\<lambda>nt.
     and_then (as_float nt) (\<lambda>ntf.
     let volume = ntf / 1000;
         density = (if get_or (material ps) ''aluminum'' = ''aluminum'' then 2.7 else 7.85);
         weight = volume * density;
         yield_strength = (if get_or (material ps) ''aluminum'' = ''aluminum'' then 150 else 250)
     in
     and_then (py_mul (PInt yield_strength) net_area) (\<lambda>max_force.
     Inr \<lparr>net_area_mm2 = net_area, thickness_mm = th, volume_cm3 = volume, weight_g = weight,
          max_force_n = max_force,
          status = (if py_ge max_force (PInt (get_or (target_force_n ps) 2000))
                    then ''PASS'' else ''FAIL'')\<rparr>)))))"

text \<open>Lines 212 to 231 of \<^verbatim>\<open>b.py\<close>. The tables \<^verbatim>\<open>MATERIAL_DENSITY\<close> and
  \<^verbatim>\<open>MATERIAL_YIELD_STRENGTH\<close> are read with a default.\<close>

definition material_density :: "string option \<Rightarrow> real" where
  "material_density m =
     (if m = Some ''aluminum'' then 2.7 else if m = Some ''steel'' then 7.85 else 2.7)"

definition material_yield_strength :: "string option \<Rightarrow> int" where
  "material_yield_strength m =
     (if m = Some ''aluminum'' then 150 else if m = Some ''steel'' then 250 else 150)"

text \<open>\<^verbatim>\<open>params.get('width_right', params.get('rect_width', params.get('circle_diameter')))\<close>:
  \<open>None\<close> when none of the three keys is there.\<close>

definition effective_width :: "params \<Rightarrow> int option" where
  "effective_width ps =
     (case width_right ps of
        Some w \<Rightarrow> Some w
      | None \<Rightarrow> (case rect_width ps of Some w \<Rightarrow> Some w | None \<Rightarrow> circle_diameter ps))"

text \<open>\<^verbatim>\<open>effective_width * thickness\<close>: a \<^verbatim>\<open>TypeError\<close> when the width is \<^verbatim>\<open>None\<close>.\<close>

fun none_mul :: "int option \<Rightarrow> int \<Rightarrow> error + int" where
  "none_mul None t = Inl TypeError"
| "none_mul (Some w) t = Inr (w * t)"

definition estimate_b :: "params \<Rightarrow> error + report" where
  "estimate_b ps =
     and_then (item (part_type ps)) (\<lambda>ptype.
     and_then (if ptype = ''arm'' \<or> ptype = ''trapezoid'' then trapezoid_area ps
               else if ptype = ''rectangle'' then rectangle_area ps
               else if ptype = ''circle'' then circle_area ps
               else Inr (PInt 0)) (\<lambda>net_area.
     let th = get_or (thickness ps) 5 in
     and_then (py_mul net_area (PInt th)) (\<lambda>nt.
     and_then (as_float nt) (\<lambda>ntf.
     let volume = ntf / 1000;
         density = material_density (material ps);
         weight = volume * density;
         yield_strength = material_yield_strength (material ps)
     in
     and_then (none_mul (effective_width ps) th) (\<lambda>min_cross_area.
     and_then (int_truediv yield_strength 1000) (\<lambda>y.
     and_then (py_mul (PInt min_cross_area) (PFloat y)) (\<lambda>max_force.
     Inr \<lparr>net_area_mm2 = net_area, thickness_mm = th, volume_cm3 = volume, weight_g = weight,
          max_force_n = max_force,
          status = (if py_ge max_force (PInt (get_or (target_force_n ps) 2000))
                    then ''PASS'' else ''FAIL'')\<rparr>)))))))"

subsection \<open>The run\<close>

text \<open>
  A row of \<^verbatim>\<open>parts_generated.csv\<close>: the report and the other columns. What a run gets from
  outside is its environment: the time stamp, the prefix of the file names, how
  \<^verbatim>\<open>os.path.abspath\<close> completes a name, and whether the call of \<^verbatim>\<open>openscad\<close> succeeded. What
  it leaves behind is the world: the files written and the rows of the log. The printed
  summary and the window that shows the preview are not modelled.
\<close>

record row = report +
  timestamp :: string
  prompt :: string
  row_part_type :: string
  png :: string
  scad :: string
  stl :: string
  row_material :: "string option"
  row_target_force_n :: "int option"

record env =
  now :: string
  save_prefix :: string
  abspath :: "string \<Rightarrow> string"
  stl_created :: bool

record world =
  files :: "string list"
  csv :: "row list"

text \<open>\<^verbatim>\<open>s.replace(old, new)\<close> for a non-empty \<open>old\<close>\<close>

function str_replace :: "string \<Rightarrow> string \<Rightarrow> string \<Rightarrow> string" where
  "str_replace old new s =
     (if old = [] \<or> s = [] then s
      else if take (length old) s = old then new @ str_replace old new (drop (length old) s)
      else hd s # str_replace old new (tl s))"
  by pat_completeness auto
termination
  by (relation "measure (\<lambda>(old, new, s). length s)") auto

declare str_replace.simps [simp del]

definition make_row :: "env \<Rightarrow> string \<Rightarrow> params \<Rightarrow> string \<Rightarrow> report \<Rightarrow> error + row" where
  "make_row e prompt_text ps base r =
     and_then (item (part_type ps)) (\<lambda>ptype.
     Inr (report.extend r
       (row.fields (now e) prompt_text ptype
          (abspath e (base @ ''.png'')) (abspath e (base @ ''.scad''))
          (if stl_created e then abspath e (str_replace ''.scad'' ''.stl'' (base @ ''.scad'')) else [])
          (material ps) (target_force_n ps))))"

text \<open>\<^verbatim>\<open>append_csv\<close>: the rows already in the file, then the new one.\<close>

definition append_csv :: "row \<Rightarrow> world \<Rightarrow> world" where
  "append_csv r w = w\<lparr>csv := csv w @ [r]\<rparr>"

definition write_file :: "string \<Rightarrow> world \<Rightarrow> world" where
  "write_file name w = w\<lparr>files := files w @ [name]\<rparr>"

text \<open>The \<^verbatim>\<open>setdefault\<close> calls at the start of \<^verbatim>\<open>run_from_prompt\<close> of \<^verbatim>\<open>vectorflow.py\<close>. The
  default for \<^verbatim>\<open>width_right\<close> is computed whether the key is there or not.\<close>

definition setdefault :: "'a option \<Rightarrow> 'a \<Rightarrow> 'a option" where
  "setdefault v d = Some (get_or v d)"

definition fill_defaults_vf :: "params \<Rightarrow> error + params" where
  "fill_defaults_vf ps =
     and_then (item (part_type ps)) (\<lambda>ptype.
       if ptype = ''arm'' \<or> ptype = ''trapezoid'' then
         (let ps1 = ps\<lparr>length_mm := setdefault (length_mm ps) 150\<rparr>;
              ps2 = ps1\<lparr>width_left := setdefault (width_left ps1) 50\<rparr>
          in and_then (half_int (get_or (width_left ps2) 50)) (\<lambda>h.
             Inr (ps2\<lparr>width_right := setdefault (width_right ps2) h\<rparr>)))
       else if ptype = ''rectangle'' then
         Inr (ps\<lparr>length_mm := setdefault (length_mm ps) 120,
                 rect_width := setdefault (rect_width ps) 40\<rparr>)
       else if ptype = ''circle'' then
         Inr (ps\<lparr>circle_diameter := setdefault (circle_diameter ps) 80\<rparr>)
       else Inr ps)"

text \<open>
  The run from the parameters on: preview, solid, files, estimate, log. An error ends the
  run where it is raised, with the world as it is then. The failure of \<^verbatim>\<open>openscad\<close> is
  caught by the source and only leaves the \<^verbatim>\<open>stl\<close> column empty.
\<close>

definition run_stages ::
  "(params \<Rightarrow> error + patch list) \<Rightarrow> (params \<Rightarrow> error + solid) \<Rightarrow> (params \<Rightarrow> error + report) \<Rightarrow>
   env \<Rightarrow> string \<Rightarrow> params \<Rightarrow> world \<Rightarrow> (error + unit) \<times> world" where
  "run_stages preview build estimate e prompt_text ps w =
     (let base = save_prefix e @ ''_'' @ now e in
      case preview ps of
        Inl err \<Rightarrow> (Inl err, w)
      | Inr patches \<Rightarrow>
          (let w1 = write_file (base @ ''.png'') w in
           case build ps of
             Inl err \<Rightarrow> (Inl err, w1)
           | Inr part \<Rightarrow>
               (let w2 = write_file (base @ ''.scad'') w1;
                    w3 = (if stl_created e
                          then write_file (str_replace ''.scad'' ''.stl'' (base @ ''.scad'')) w2
                          else w2)
                in case and_then (estimate ps) (make_row e prompt_text ps base) of
                     Inl err \<Rightarrow> (Inl err, w3)
                   | Inr r \<Rightarrow> (Inr (), append_csv r w3))))"

definition run_params_vf :: "env \<Rightarrow> string \<Rightarrow> params \<Rightarrow> world \<Rightarrow> (error + unit) \<times> world" where
  "run_params_vf e prompt_text ps0 w =
     (case fill_defaults_vf ps0 of
        Inl err \<Rightarrow> (Inl err, w)
      | Inr ps \<Rightarrow>
          run_stages generate_2d_preview_vf build_scad_vf estimate_vf e prompt_text ps w)"

definition run_from_prompt_vf :: "env \<Rightarrow> string \<Rightarrow> world \<Rightarrow> (error + unit) \<times> world" where
  "run_from_prompt_vf e prompt_text w =
     (case parse_prompt_vf prompt_text of
        Inl err \<Rightarrow> (Inl err, w)
      | Inr ps \<Rightarrow> run_params_vf e prompt_text ps w)"

definition run_params_b :: "env \<Rightarrow> string \<Rightarrow> params \<Rightarrow> world \<Rightarrow> (error + unit) \<times> world" where
  "run_params_b e prompt_text ps w =
     run_stages generate_2d_preview_b build_scad_b estimate_b e prompt_text ps w"

definition run_from_prompt_b :: "env \<Rightarrow> string \<Rightarrow> world \<Rightarrow> (error + unit) \<times> world" where
  "run_from_prompt_b e prompt_text w =
     (case parse_prompt_b prompt_text of
        Inl err \<Rightarrow> (Inl err, w)
      | Inr ps \<Rightarrow> run_params_b e prompt_text ps w)"

section \<open>Notions used to state the properties\<close>

text \<open>The part types for which \<^verbatim>\<open>build_scad\<close> of \<^verbatim>\<open>vectorflow.py\<close> and \<^verbatim>\<open>a.py\<close> has a
  branch, and those for which \<^verbatim>\<open>build_scad\<close> of \<^verbatim>\<open>b.py\<close> has one.\<close>

definition recognised_vf :: "string \<Rightarrow> bool" where
  "recognised_vf pt = (pt = ''arm'' \<or> pt = ''trapezoid'' \<or> pt = ''rectangle'' \<or> pt = ''circle'')"

definition recognised_b :: "string \<Rightarrow> bool" where
  "recognised_b pt = (recognised_vf pt \<or> pt = ''l_bracket'')"

text \<open>An environment and a world for the examples: no \<^verbatim>\<open>openscad\<close>, names left as they
  are, nothing written yet.\<close>

definition example_env :: env where
  "example_env = \<lparr>now = ''20260101_120000'', save_prefix = ''part'', abspath = (\<lambda>s. s),
     stl_created = False\<rparr>"

definition empty_world :: world where
  "empty_world = \<lparr>files = [], csv = []\<rparr>"

text \<open>What both parsers make of a prompt that names an L-bracket and nothing else.\<close>

definition l_bracket_params :: params where
  "l_bracket_params = empty_params\<lparr>part_type := Some ''l_bracket'', length_mm := Some 120,
     width := Some 40, thickness := Some 5, hole_count := Some 3, hole_diameter := Some 6,
     material := Some ''aluminum'', target_force_n := Some 2000\<rparr>"

text \<open>Scenario 2 of the specification, the fields it lists with the hole diameter left
  open, and what both parsers make of the prompt.\<close>

definition scenario2 :: string where
  "scenario2 = ''Make a steel plate 80mm diameter with 4 holes 6mm, thickness 6mm''"

definition scenario2_fields :: "int \<Rightarrow> params \<Rightarrow> bool" where
  "scenario2_fields d ps = (part_type ps = Some ''circle'' \<and> circle_diameter ps = Some 80
     \<and> hole_count ps = Some 4 \<and> hole_diameter ps = Some d \<and> thickness ps = Some 6
     \<and> material ps = Some ''steel'')"

definition scenario2_params :: params where
  "scenario2_params = empty_params\<lparr>part_type := Some ''circle'', length_mm := Some 80,
     width := Some 6, thickness := Some 6, hole_count := Some 4, hole_diameter := Some 80,
     material := Some ''steel'', target_force_n := Some 2000, circle_diameter := Some 80\<rparr>"

text \<open>An arm given by its length and its width, and one whose width is \<open>2 ^ 53 + 3\<close>.\<close>

definition arm_prompt :: string where
  "arm_prompt = ''arm 150mm 50mm''"

definition arm_params :: params where
  "arm_params = empty_params\<lparr>part_type := Some ''arm'', length_mm := Some 150,
     width := Some 50, thickness := Some 5, hole_count := Some 3, hole_diameter := Some 6,
     material := Some ''aluminum'', target_force_n := Some 2000,
     width_left := Some 50, width_right := Some 25\<rparr>"

definition wide_prompt :: string where
  "wide_prompt = ''arm 1mm 9007199254740995mm''"

definition wide_params :: params where
  "wide_params = empty_params\<lparr>part_type := Some ''arm'', length_mm := Some 1,
     width := Some 9007199254740995, thickness := Some 5, hole_count := Some 3,
     hole_diameter := Some 6, material := Some ''aluminum'', target_force_n := Some 2000,
     width_left := Some 9007199254740995, width_right := Some 4503599627370498\<rparr>"

text \<open>A bar given by its length and its width, as \<^verbatim>\<open>b.py\<close> parses it.\<close>

definition bar_prompt :: string where
  "bar_prompt = ''bar 200mm 30mm''"

definition bar_params :: params where
  "bar_params = empty_params\<lparr>part_type := Some ''rectangle'', length_mm := Some 200,
     width := Some 30, thickness := Some 5, hole_count := Some 3, hole_diameter := Some 6,
     material := Some ''aluminum'', target_force_n := Some 2000, rect_width := Some 30\<rparr>"

text \<open>
  What the patterns are meant to find, said without patterns. A number with a unit at the
  start of a string: a non-empty run of digits, then any white space, then the unit; the
  result is the run of digits. The first number with a unit in a string is the one at the
  leftmost position that has one.
\<close>

definition number_at :: "string \<Rightarrow> string \<Rightarrow> string option" where
  "number_at u s =
     (let ds = takeWhile is_digit s; r = dropWhile is_space (dropWhile is_digit s)
      in if ds \<noteq> [] \<and> take (length u) r = u then Some ds else None)"

fun first_number :: "string \<Rightarrow> string \<Rightarrow> string option" where
  "first_number u [] = None"
| "first_number u (x # xs) =
     (case number_at u (x # xs) of Some ds \<Rightarrow> Some ds | None \<Rightarrow> first_number u xs)"

text \<open>
  A keyword \<open>w\<close> at the start of a string, with a word boundary before it when \<open>lb\<close> and
  one after it when \<open>rb\<close>; \<open>b\<close> tells whether the character before the string is a word
  character. A keyword occurs in a string when it is at the start of one of its suffixes.
\<close>

definition prev_after :: "bool \<Rightarrow> string \<Rightarrow> bool" where
  "prev_after b w = (if w = [] then b else is_word (last w))"

definition occurs_here :: "bool \<Rightarrow> string \<Rightarrow> bool \<Rightarrow> bool \<Rightarrow> string \<Rightarrow> bool" where
  "occurs_here lb w rb b s =
     (take (length w) s = w
      \<and> (if lb then at_boundary (b, s, []) else True)
      \<and> (if rb then at_boundary (prev_after b w, drop (length w) s, []) else True))"

fun occurs_from :: "bool \<Rightarrow> string \<Rightarrow> bool \<Rightarrow> bool \<Rightarrow> string \<Rightarrow> bool" where
  "occurs_from lb w rb b [] = occurs_here lb w rb b []"
| "occurs_from lb w rb b (x # xs) =
     (occurs_here lb w rb b (x # xs) \<or> occurs_from lb w rb (is_word x) xs)"

text \<open>\<open>w\<close> as a whole word, at the start of a word, at the end of a word.\<close>

definition whole_word :: "string \<Rightarrow> string \<Rightarrow> bool" where
  "whole_word w s = occurs_from True w True False s"

definition word_start :: "string \<Rightarrow> string \<Rightarrow> bool" where
  "word_start w s = occurs_from True w False False s"

definition word_end :: "string \<Rightarrow> string \<Rightarrow> bool" where
  "word_end w s = occurs_from False w True False s"

text \<open>A plate whose only number with \<^verbatim>\<open>mm\<close> is its thickness, and a plate with a number in
  metres before the one in millimetres.\<close>

definition thick_prompt :: string where
  "thick_prompt = ''plate thickness 6mm''"

definition thick_params :: params where
  "thick_params = empty_params\<lparr>part_type := Some ''circle'', length_mm := Some 6,
     width := Some 40, thickness := Some 6, hole_count := Some 3, hole_diameter := Some 6,
     material := Some ''aluminum'', target_force_n := Some 2000, circle_diameter := Some 6\<rparr>"

definition metre_prompt :: string where
  "metre_prompt = ''plate 3 m 20mm''"

definition metre_params_b :: params where
  "metre_params_b = empty_params\<lparr>part_type := Some ''circle'', length_mm := Some 3,
     width := Some 20, thickness := Some 5, hole_count := Some 3, hole_diameter := Some 6,
     material := Some ''aluminum'', target_force_n := Some 2000, circle_diameter := Some 3\<rparr>"

text \<open>
  The part type as the keywords give it. In \<^verbatim>\<open>vectorflow.py\<close> and \<^verbatim>\<open>a.py\<close>: \<^verbatim>\<open>arm\<close>,
  \<^verbatim>\<open>l-bracket\<close> with or without its hyphen, \<^verbatim>\<open>l bracket\<close> and \<^verbatim>\<open>plate\<close> as whole words,
  \<^verbatim>\<open>rectangl\<close> at the start of a word and \<^verbatim>\<open>bar\<close> as a whole word. In \<^verbatim>\<open>b.py\<close>: the
  keywords anywhere in the text.
\<close>

definition keyword_type_vf :: "string \<Rightarrow> string" where
  "keyword_type_vf p =
     (if whole_word ''arm'' p then ''arm''
      else if whole_word ''l-bracket'' p \<or> whole_word ''lbracket'' p \<or> whole_word ''l bracket'' p
        then ''l_bracket''
      else if whole_word ''plate'' p then ''circle''
      else if word_start ''rectangl'' p \<or> whole_word ''bar'' p then ''rectangle''
      else ''trapezoid'')"

definition keyword_type_b :: "string \<Rightarrow> string" where
  "keyword_type_b p =
     (if str_contains ''arm'' p then ''arm''
      else if str_contains ''l-bracket'' p \<or> str_contains ''l bracket'' p then ''l_bracket''
      else if str_contains ''plate'' p then ''circle''
      else if str_contains ''rectangle'' p \<or> str_contains ''bar'' p then ''rectangle''
      else ''trapezoid'')"

text \<open>No archetype keyword of the specification stands as a whole word.\<close>

definition no_keyword :: "string \<Rightarrow> bool" where
  "no_keyword p =
     (\<not> (whole_word ''arm'' p \<or> whole_word ''l-bracket'' p \<or> whole_word ''l bracket'' p
         \<or> whole_word ''plate'' p \<or> whole_word ''rectangle'' p \<or> whole_word ''bar'' p
         \<or> whole_word ''trapezoid'' p \<or> whole_word ''bracket'' p))"

text \<open>Prompts with a keyword inside a longer word, and what the parsers return on them.\<close>

definition alarm_prompt :: string where
  "alarm_prompt = ''alarm bar''"

definition alarm_params_vf :: params where
  "alarm_params_vf = empty_params\<lparr>part_type := Some ''rectangle'', length_mm := Some 120,
     width := Some 40, thickness := Some 5, hole_count := Some 3, hole_diameter := Some 6,
     material := Some ''aluminum'', target_force_n := Some 2000, rect_width := Some 40,
     rect_height := Some 5\<rparr>"

definition alarm_params_b :: params where
  "alarm_params_b = empty_params\<lparr>part_type := Some ''arm'', length_mm := Some 120,
     width := Some 40, thickness := Some 5, hole_count := Some 3, hole_diameter := Some 6,
     material := Some ''aluminum'', target_force_n := Some 2000, width_left := Some 40,
     width_right := Some 20\<rparr>"

definition template_prompt :: string where
  "template_prompt = ''template''"

definition template_params_b :: params where
  "template_params_b = empty_params\<lparr>part_type := Some ''circle'', length_mm := Some 120,
     width := Some 40, thickness := Some 5, hole_count := Some 3, hole_diameter := Some 6,
     material := Some ''aluminum'', target_force_n := Some 2000, circle_diameter := Some 120\<rparr>"

definition plural_prompt :: string where
  "plural_prompt = ''rectangles''"

definition plural_params_vf :: params where
  "plural_params_vf = empty_params\<lparr>part_type := Some ''rectangle'', length_mm := Some 120,
     width := Some 40, thickness := Some 5, hole_count := Some 3, hole_diameter := Some 6,
     material := Some ''aluminum'', target_force_n := Some 2000, rect_width := Some 40,
     rect_height := Some 5\<rparr>"

section \<open>Properties\<close>

subsection \<open>Conversions\<close>

lemma round53_small: "\<bar>n\<bar> \<le> 2 ^ 53 \<Longrightarrow> round53 n = n"
proof -
  assume a: "\<bar>n\<bar> \<le> 2 ^ 53"
  show ?thesis
  proof (cases "\<bar>n\<bar> < 2 ^ 53")
    case True
    then have "bitlen \<bar>n\<bar> \<le> 53" by (simp add: bitlen_le_iff_power)
    then show ?thesis by (simp add: round53_def Let_def)
  next
    case False
    with a have "n = 9007199254740992 \<or> n = - 9007199254740992" by auto
    moreover have "round53 9007199254740992 = 9007199254740992" by code_simp
    moreover have "round53 (- 9007199254740992) = - 9007199254740992" by code_simp
    ultimately show ?thesis by auto
  qed
qed

lemma float_of_int_small: "\<bar>n\<bar> \<le> 2 ^ 53 \<Longrightarrow> float_of_int n = Inr (real_of_int n)"
  by (simp add: float_of_int_def round53_small dbl_overflow_def)

lemma float_of_int_cases: "float_of_int n = Inl OverflowError \<or> (\<exists>x. float_of_int n = Inr x)"
  by (simp add: float_of_int_def)

subsection \<open>Example prompts\<close>

lemma parse_vf_l_bracket: "parse_prompt_vf ''l-bracket'' = Inr l_bracket_params"
  by code_simp

lemma parse_b_l_bracket: "parse_prompt_b ''l-bracket'' = Inr l_bracket_params"
  by code_simp

subsection \<open>An unknown part type\<close>

lemma build_scad_vf_unknown:
  assumes "part_type ps = Some pt" "\<not> recognised_vf pt"
  shows "\<exists>err. build_scad_vf ps = Inl err"
  using assms float_of_int_cases[of "get_or (thickness ps) 5"]
  by (auto simp: build_scad_vf_def recognised_vf_def)

lemma preview_vf_unknown:
  assumes "part_type ps = Some pt" "\<not> recognised_vf pt"
  shows "generate_2d_preview_vf ps = Inr []"
  using assms by (auto simp: generate_2d_preview_vf_def recognised_vf_def)

lemma fill_defaults_vf_unknown:
  assumes "part_type ps = Some pt" "\<not> recognised_vf pt"
  shows "fill_defaults_vf ps = Inr ps"
  using assms by (auto simp: fill_defaults_vf_def recognised_vf_def)

lemma run_stages_build_error:
  assumes "preview ps = Inr pa" "build ps = Inl err"
  shows "run_stages preview build estimate e pr ps w =
           (Inl err, write_file (save_prefix e @ ''_'' @ now e @ ''.png'') w)"
  using assms by (simp add: run_stages_def Let_def)

text \<open>
  Claim C5. When the part type of the parameters is none of those \<^verbatim>\<open>build_scad\<close> of
  \<^verbatim>\<open>vectorflow.py\<close> knows, \<^verbatim>\<open>build_scad\<close> raises an error, the run ends with that error, and
  the log has the rows it had before: \<^verbatim>\<open>append_csv\<close> is not reached.
\<close>

theorem unknown_part_type_aborts:
  assumes "part_type ps = Some pt" "\<not> recognised_vf pt"
  shows "\<exists>err. build_scad_vf ps = Inl err \<and> fst (run_params_vf e pr ps w) = Inl err
            \<and> csv (snd (run_params_vf e pr ps w)) = csv w"
proof -
  from build_scad_vf_unknown[OF assms] obtain err where b: "build_scad_vf ps = Inl err" ..
  have "run_params_vf e pr ps w = (Inl err, write_file (save_prefix e @ ''_'' @ now e @ ''.png'') w)"
    using run_stages_build_error[of generate_2d_preview_vf ps "[]" build_scad_vf err]
      preview_vf_unknown[OF assms] b
    by (simp add: run_params_vf_def fill_defaults_vf_unknown[OF assms])
  with b show ?thesis by (auto simp: write_file_def)
qed

theorem unknown_part_type_aborts_witness:
  "parse_prompt_vf ''l-bracket'' = Inr l_bracket_params
     \<and> part_type l_bracket_params = Some ''l_bracket'' \<and> \<not> recognised_vf ''l_bracket''
     \<and> (\<exists>err. build_scad_vf l_bracket_params = Inl err
            \<and> fst (run_params_vf example_env ''l-bracket'' l_bracket_params empty_world) = Inl err
            \<and> csv (snd (run_params_vf example_env ''l-bracket'' l_bracket_params empty_world))
                = csv empty_world)"
proof -
  have 1: "part_type l_bracket_params = Some ''l_bracket''" by (simp add: l_bracket_params_def)
  have 2: "\<not> recognised_vf ''l_bracket''" by (simp add: recognised_vf_def)
  from unknown_part_type_aborts[OF 1 2, of example_env "''l-bracket''" empty_world]
    parse_vf_l_bracket 1 2
  show ?thesis by blast
qed

subsection \<open>Scenario 2\<close>

lemma parse_vf_scenario2: "parse_prompt_vf scenario2 = Inr scenario2_params"
  by code_simp

lemma parse_b_scenario2: "parse_prompt_b scenario2 = Inr scenario2_params"
  by code_simp

text \<open>
  Claim C3 at its prompt. Both parsers read the prompt of scenario 2 as a circle of
  diameter 80 with 4 holes, thickness 6, of steel, but with hole diameter 80 where the
  claim has 6: the pattern for the hole diameter, \<^verbatim>\<open>(\d+)\s*mm\s*(?:hole|diameter|dia)\<close>,
  first matches \<^verbatim>\<open>80mm diameter\<close>, the diameter of the plate.
\<close>

theorem scenario2_parse:
  "(\<exists>ps. parse_prompt_vf scenario2 = Inr ps \<and> scenario2_fields 80 ps)
   \<and> (\<exists>ps. parse_prompt_b scenario2 = Inr ps \<and> scenario2_fields 80 ps)"
  by (simp add: parse_vf_scenario2 parse_b_scenario2 scenario2_fields_def scenario2_params_def
      empty_params_def)

text \<open>The fields as the claim lists them, with hole diameter 6, are those of neither
  parser.\<close>

lemma scenario2_hole_diameter_not_6:
  "\<not> (\<exists>ps. parse_prompt_vf scenario2 = Inr ps \<and> scenario2_fields 6 ps)
   \<and> \<not> (\<exists>ps. parse_prompt_b scenario2 = Inr ps \<and> scenario2_fields 6 ps)"
  by (simp add: parse_vf_scenario2 parse_b_scenario2 scenario2_fields_def scenario2_params_def
      empty_params_def)

subsection \<open>The right width of a trapezoid\<close>

lemma parse_vf_arm: "parse_prompt_vf arm_prompt = Inr arm_params"
  by code_simp

lemma parse_b_arm: "parse_prompt_b arm_prompt = Inr arm_params"
  by code_simp

lemma parse_vf_wide: "parse_prompt_vf wide_prompt = Inr wide_params"
  by code_simp

lemma and_then_Inr_iff:
  "and_then m f = Inr y \<longleftrightarrow> (\<exists>x. m = Inr x \<and> f x = Inr y)"
  by (cases m) auto

lemma floor_half: "\<lfloor>real_of_int w * 0.5\<rfloor> = w div 2"
  using floor_divide_of_int_eq[of w 2, where ?'a = real] by simp

lemma max_half: "max 10 (int_of_float (real_of_int w * 0.5)) = max 10 \<lfloor>0.5 * real_of_int w\<rfloor>"
proof (cases "0 \<le> w")
  case True
  then show ?thesis by (simp add: int_of_float_def mult.commute)
next
  case False
  then have "real_of_int w * 0.5 < 0" by simp
  then have "int_of_float (real_of_int w * 0.5) = \<lceil>real_of_int w * 0.5\<rceil>"
    by (simp add: int_of_float_def)
  moreover have "\<lceil>real_of_int w * 0.5\<rceil> \<le> 0" using False by (simp add: ceiling_le_iff)
  moreover have "\<lfloor>0.5 * real_of_int w\<rfloor> \<le> 0" using False by (simp add: floor_le_iff)
  ultimately show ?thesis by simp
qed

lemma half_int_small:
  "\<bar>w\<bar> \<le> 2 ^ 53 \<Longrightarrow> half_int w = Inr (int_of_float (real_of_int w * 0.5))"
  by (simp add: half_int_def float_of_int_small)

lemma resolve_vf_width_right:
  assumes "resolve_vf ps0 = Inr ps" "part_type ps = Some ''arm'' \<or> part_type ps = Some ''trapezoid''"
    "width_left ps = Some wl" "\<bar>wl\<bar> \<le> 2 ^ 53"
  shows "width_right ps = Some (max 10 \<lfloor>0.5 * real_of_int wl\<rfloor>)"
proof -
  have pt: "part_type ps0 = Some ''arm'' \<or> part_type ps0 = Some ''trapezoid''"
    using assms(1,2) by (auto simp: resolve_vf_def Let_def and_then_Inr_iff split: if_splits)
  then obtain h where h: "half_int (get_or (width ps0) 50) = Inr h"
    and ps: "ps = ps0\<lparr>length_mm := Some (get_or (length_mm ps0) 150),
                      width_left := Some (get_or (width ps0) 50),
                      width_right := Some (max 10 h)\<rparr>"
    using assms(1) by (auto simp: resolve_vf_def Let_def and_then_Inr_iff)
  from ps assms(3) have wl: "get_or (width ps0) 50 = wl" by simp
  with h assms(4) have hh: "h = int_of_float (real_of_int wl * 0.5)" by (simp add: half_int_small)
  have "max 10 h = max 10 \<lfloor>0.5 * real_of_int wl\<rfloor>" unfolding hh by (rule max_half)
  with ps show ?thesis by simp
qed

lemma resolve_b_width_right:
  assumes "resolve_b ps0 = Inr ps" "part_type ps = Some ''arm'' \<or> part_type ps = Some ''trapezoid''"
    "width_left ps = Some wl" "\<bar>wl\<bar> \<le> 2 ^ 53"
  shows "width_right ps = Some (max 10 \<lfloor>0.5 * real_of_int wl\<rfloor>)"
proof -
  from assms(1) obtain pt where pt0: "part_type ps0 = Some pt"
    by (cases "part_type ps0") (auto simp: resolve_b_def)
  have pt: "pt = ''arm'' \<or> pt = ''trapezoid''"
    using assms(1,2) pt0 by (auto simp: resolve_b_def and_then_Inr_iff split: if_splits)
  then obtain w h where w: "width ps0 = Some w" and h: "half_int w = Inr h"
    and ps: "ps = ps0\<lparr>width_left := Some w, width_right := Some (max 10 h)\<rparr>"
    using assms(1) pt0 by (cases "width ps0") (auto simp: resolve_b_def and_then_Inr_iff)
  from ps assms(3) have "w = wl" by simp
  with h assms(4) have hh: "h = int_of_float (real_of_int wl * 0.5)" by (simp add: half_int_small)
  have "max 10 h = max 10 \<lfloor>0.5 * real_of_int wl\<rfloor>" unfolding hh by (rule max_half)
  with ps show ?thesis by simp
qed

text \<open>
  Claim C4, as the code has it. \<^verbatim>\<open>width_right\<close> is \<^verbatim>\<open>max(10, int(width_left * 0.5))\<close>, and
  the product is a float product. For a trapezoid or an arm that either parser returns,
  whose left width is at most \<open>2 ^ 53\<close> in absolute value, the right width is the larger
  of 10 and the floor of half the left width.
\<close>

theorem width_right_half:
  assumes "parse_prompt_vf pr = Inr ps \<or> parse_prompt_b pr = Inr ps"
    and "part_type ps = Some ''arm'' \<or> part_type ps = Some ''trapezoid''"
    and "width_left ps = Some wl" and "\<bar>wl\<bar> \<le> 2 ^ 53"
  shows "width_right ps = Some (max 10 \<lfloor>0.5 * real_of_int wl\<rfloor>)"
  using assms(1)
proof
  assume "parse_prompt_vf pr = Inr ps"
  then show ?thesis
    unfolding parse_prompt_vf_def Let_def by (rule resolve_vf_width_right) (rule assms)+
next
  assume "parse_prompt_b pr = Inr ps"
  then show ?thesis
    unfolding parse_prompt_b_def Let_def by (rule resolve_b_width_right) (rule assms)+
qed

theorem width_right_half_witness:
  "parse_prompt_vf arm_prompt = Inr arm_params \<and> part_type arm_params = Some ''arm''
   \<and> width_left arm_params = Some 50 \<and> \<bar>50 :: int\<bar> \<le> 2 ^ 53
   \<and> width_right arm_params = Some (max 10 \<lfloor>0.5 * real_of_int 50\<rfloor>)"
proof -
  have 1: "parse_prompt_vf arm_prompt = Inr arm_params \<or> parse_prompt_b arm_prompt = Inr arm_params"
    by (simp add: parse_vf_arm)
  have 2: "part_type arm_params = Some ''arm'' \<or> part_type arm_params = Some ''trapezoid''"
    by (simp add: arm_params_def)
  have 3: "width_left arm_params = Some 50" by (simp add: arm_params_def)
  have 4: "\<bar>50 :: int\<bar> \<le> 2 ^ 53" by simp
  from width_right_half[OF 1 2 3 4] parse_vf_arm 3 4 show ?thesis
    by (simp add: arm_params_def)
qed

text \<open>Beyond \<open>2 ^ 53\<close> the conversion rounds: a left width of \<open>2 ^ 53 + 3\<close> becomes the float
  \<open>2 ^ 53 + 4\<close>, and the right width is \<open>2 ^ 52 + 2\<close>, not \<open>2 ^ 52 + 1\<close>.\<close>

theorem width_right_half_counterexample:
  "\<exists>ps wl. parse_prompt_vf wide_prompt = Inr ps \<and> part_type ps = Some ''arm''
     \<and> width_left ps = Some wl \<and> width_right ps \<noteq> Some (max 10 \<lfloor>0.5 * real_of_int wl\<rfloor>)"
  by (simp add: parse_vf_wide wide_params_def empty_params_def)

subsection \<open>The L-bracket\<close>

lemma int_truediv_half:
  "\<bar>l\<bar> < dbl_overflow \<Longrightarrow> int_truediv l 2 = Inr (real_of_int l / 2)"
proof -
  assume a: "\<bar>l\<bar> < dbl_overflow"
  have "\<bar>real_of_int l / 2\<bar> \<le> \<bar>real_of_int l\<bar>" by simp
  also have "\<dots> < real_of_int dbl_overflow" using a by linarith
  finally show ?thesis by (simp add: int_truediv_def)
qed

text \<open>
  Claim C9, as the code has it. \<^verbatim>\<open>build_scad\<close> of \<^verbatim>\<open>b.py\<close> turns parameters of part type
  \<^verbatim>\<open>l_bracket\<close> whose thickness and length are between 0 and \<open>2 ^ 53\<close>, and whose hole
  diameter is in the range of a float, into the union of two boxes: one of width by length
  by thickness, and one of width by thickness by half the length, moved along y by length
  minus thickness. The solid has no through-cut. Within these bounds the conversions, the
  difference and the quotient of the source are exact.
\<close>

theorem l_bracket_b:
  assumes "part_type ps = Some ''l_bracket''"
    and "0 \<le> get_or (thickness ps) 5 \<and> get_or (thickness ps) 5 \<le> 2 ^ 53"
    and "0 \<le> get_or (length_mm ps) 120 \<and> get_or (length_mm ps) 120 \<le> 2 ^ 53"
    and "\<bar>get_or (hole_diameter ps) 6\<bar> < dbl_overflow"
  shows "\<exists>part. build_scad_b ps = Inr part \<and> solid_cuts part = [] \<and>
     part = (let w = real_of_int (get_or (width ps) 40);
                 l = real_of_int (get_or (length_mm ps) 120);
                 th = real_of_int (get_or (thickness ps) 5)
             in union [cube w l th, translate (0, l - th, 0) (cube w th (l / 2))])"
proof -
  have t: "float_of_int (get_or (thickness ps) 5) = Inr (real_of_int (get_or (thickness ps) 5))"
    using assms(2) by (intro float_of_int_small) simp
  have l: "float_of_int (get_or (length_mm ps) 120) = Inr (real_of_int (get_or (length_mm ps) 120))"
    using assms(3) by (intro float_of_int_small) simp
  have "\<bar>get_or (length_mm ps) 120\<bar> < dbl_overflow"
    using assms(3) by (simp add: dbl_overflow_def)
  then have h: "int_truediv (get_or (length_mm ps) 120) 2
                  = Inr (real_of_int (get_or (length_mm ps) 120) / 2)"
    by (rule int_truediv_half)
  have d: "\<exists>x. float_of_int (get_or (hole_diameter ps) 6) = Inr x"
    using assms(4) by (simp add: float_of_int_def)
  from assms(1) t l h d show ?thesis
    by (auto simp: build_scad_b_def Let_def cut_holes_def)
qed

theorem l_bracket_b_witness:
  "part_type l_bracket_params = Some ''l_bracket''
   \<and> (0 \<le> get_or (thickness l_bracket_params) 5 \<and> get_or (thickness l_bracket_params) 5 \<le> 2 ^ 53)
   \<and> (0 \<le> get_or (length_mm l_bracket_params) 120
        \<and> get_or (length_mm l_bracket_params) 120 \<le> 2 ^ 53)
   \<and> \<bar>get_or (hole_diameter l_bracket_params) 6\<bar> < dbl_overflow
   \<and> build_scad_b l_bracket_params =
       Inr (union [cube 40 120 5, translate (0, 115, 0) (cube 40 5 60)])"
proof -
  have 1: "part_type l_bracket_params = Some ''l_bracket''"
    by (simp add: l_bracket_params_def empty_params_def)
  have 2: "0 \<le> get_or (thickness l_bracket_params) 5
           \<and> get_or (thickness l_bracket_params) 5 \<le> 2 ^ 53"
    by (simp add: l_bracket_params_def empty_params_def)
  have 3: "0 \<le> get_or (length_mm l_bracket_params) 120
           \<and> get_or (length_mm l_bracket_params) 120 \<le> 2 ^ 53"
    by (simp add: l_bracket_params_def empty_params_def)
  have 4: "\<bar>get_or (hole_diameter l_bracket_params) 6\<bar> < dbl_overflow"
    by (simp add: l_bracket_params_def empty_params_def dbl_overflow_def)
  from l_bracket_b[OF 1 2 3 4] 1 2 3 4 show ?thesis
    by (simp add: l_bracket_params_def empty_params_def Let_def)
qed

text \<open>\<^verbatim>\<open>build_scad\<close> of \<^verbatim>\<open>vectorflow.py\<close> and \<^verbatim>\<open>a.py\<close> has no branch for \<^verbatim>\<open>l_bracket\<close>,
  a part type their parser returns: it raises \<^verbatim>\<open>ValueError\<close>.\<close>

theorem l_bracket_vf_counterexample:
  "parse_prompt_vf ''l-bracket'' = Inr l_bracket_params
   \<and> part_type l_bracket_params = Some ''l_bracket''
   \<and> build_scad_vf l_bracket_params = Inl ValueError"
  by (simp add: parse_vf_l_bracket l_bracket_params_def empty_params_def build_scad_vf_def
      float_of_int_small)

lemma preview_b_l_bracket: "generate_2d_preview_b l_bracket_params = Inr []"
  by (simp add: generate_2d_preview_b_def outline_b_def holes_preview_b_def l_bracket_params_def
      empty_params_def float_of_int_small)

lemma build_b_l_bracket:
  "build_scad_b l_bracket_params = Inr (union [cube 40 120 5, translate (0, 115, 0) (cube 40 5 60)])"
  by (simp add: build_scad_b_def l_bracket_params_def empty_params_def float_of_int_small
      int_truediv_def dbl_overflow_def cut_holes_def)

lemma estimate_b_l_bracket: "estimate_b l_bracket_params = Inl TypeError"
  by (simp add: estimate_b_def l_bracket_params_def empty_params_def float_of_int_small
      effective_width_def)

text \<open>
  Claim C7 at the prompt \<^verbatim>\<open>l-bracket\<close>, in \<^verbatim>\<open>b.py\<close>. The parameters pass the preview and
  \<^verbatim>\<open>build_scad\<close> and reach the estimate. None of the keys \<^verbatim>\<open>width_right\<close>, \<^verbatim>\<open>rect_width\<close>
  and \<^verbatim>\<open>circle_diameter\<close> is set for an L-bracket, so \<^verbatim>\<open>effective_width\<close> is \<^verbatim>\<open>None\<close>, and
  \<^verbatim>\<open>effective_width * thickness\<close> raises \<^verbatim>\<open>TypeError\<close>: the run ends with that error and
  no row.
\<close>

theorem l_bracket_estimate_b_fails:
  "parse_prompt_b ''l-bracket'' = Inr l_bracket_params
   \<and> generate_2d_preview_b l_bracket_params = Inr []
   \<and> build_scad_b l_bracket_params = Inr (union [cube 40 120 5, translate (0, 115, 0) (cube 40 5 60)])
   \<and> estimate_b l_bracket_params = Inl TypeError
   \<and> fst (run_from_prompt_b example_env ''l-bracket'' empty_world) = Inl TypeError
   \<and> csv (snd (run_from_prompt_b example_env ''l-bracket'' empty_world)) = []"
  by (simp add: parse_b_l_bracket preview_b_l_bracket build_b_l_bracket estimate_b_l_bracket
      run_from_prompt_b_def run_params_b_def run_stages_def Let_def write_file_def empty_world_def
      example_env_def)

subsection \<open>The holes of the preview and of the solid\<close>

lemma py_range_3: "py_range 3 = [0, 1, 2]"
  by code_simp

lemma preview_b_arm:
  "generate_2d_preview_b arm_params =
     Inr [Polygon [(0, 25), (150, 12.5), (150, - 12.5), (0, - 25)] LightGrey,
          Circle (37.5, 21.875) 3 White, Circle (75, 18.75) 3 White,
          Circle (112.5, 15.625) 3 White]"
  by (simp add: generate_2d_preview_b_def outline_b_def holes_preview_b_def arm_params_def
      empty_params_def float_of_int_small int_truediv_def dbl_overflow_def py_range_3)

lemma build_b_arm:
  "build_scad_b arm_params = Inr (linear_extrude 5 (polygon [(0, 0), (150, 0), (150, 25), (0, 50)]))"
  by (simp add: build_scad_b_def arm_params_def empty_params_def float_of_int_small cut_holes_def)

lemma preview_vf_arm:
  "generate_2d_preview_vf arm_params =
     Inr [Polygon [(0, 0), (150, 0), (150, 25), (0, 50)] LightGrey,
          Circle (37.5, 18.75) 3 White, Circle (75, 18.75) 3 White,
          Circle (112.5, 18.75) 3 White]"
  by (simp add: generate_2d_preview_vf_def arm_params_def
      empty_params_def float_of_int_small int_truediv_def dbl_overflow_def py_range_3)

lemma build_vf_arm:
  "build_scad_vf arm_params =
     Inr (difference (linear_extrude 5 (polygon [(0, 0), (150, 0), (150, 25), (0, 50)]))
            (union [translate (37.5, 18.75, -1) (cylinder 3 7),
                    translate (75, 18.75, -1) (cylinder 3 7),
                    translate (112.5, 18.75, -1) (cylinder 3 7)]))"
  by (simp add: build_scad_vf_def arm_params_def empty_params_def float_of_int_small cut_holes_def
      py_range_3 hole_obj_def)

text \<open>
  Claim C2 at the prompt \<^verbatim>\<open>arm 150mm 50mm\<close>, in \<^verbatim>\<open>b.py\<close>. The preview draws three holes,
  on the taper; \<^verbatim>\<open>build_scad\<close> leaves \<^verbatim>\<open>hole_objs\<close> empty and cuts none.
\<close>

theorem holes_differ_b:
  "parse_prompt_b arm_prompt = Inr arm_params
   \<and> map_sum id preview_holes (generate_2d_preview_b arm_params)
       = Inr [(37.5, 21.875), (75, 18.75), (112.5, 15.625)]
   \<and> map_sum id solid_cuts (build_scad_b arm_params) = Inr []"
  by (simp add: parse_b_arm preview_b_arm build_b_arm preview_holes_def map_filter_simps)

text \<open>In \<^verbatim>\<open>vectorflow.py\<close> and \<^verbatim>\<open>a.py\<close> the same parameters give the same three positions
  in the preview and in the solid.\<close>

lemma holes_agree_vf_arm:
  "map_sum id preview_holes (generate_2d_preview_vf arm_params)
       = Inr [(37.5, 18.75), (75, 18.75), (112.5, 18.75)]
   \<and> map_sum id solid_cuts (build_scad_vf arm_params)
       = Inr [(37.5, 18.75), (75, 18.75), (112.5, 18.75)]"
  by (simp add: preview_vf_arm build_vf_arm preview_holes_def map_filter_simps)

subsection \<open>The two formulas for the maximum force\<close>

lemma estimate_vf_bar:
  "estimate_vf bar_params = Inr \<lparr>net_area_mm2 = PInt 6000, thickness_mm = 5, volume_cm3 = 30,
     weight_g = 81, max_force_n = PInt 900000, status = ''PASS''\<rparr>"
  by (simp add: estimate_vf_def bar_params_def empty_params_def rectangle_area_def
      float_of_int_small py_ge_def)

lemma estimate_b_bar:
  "estimate_b bar_params = Inr \<lparr>net_area_mm2 = PInt 6000, thickness_mm = 5, volume_cm3 = 30,
     weight_g = 81, max_force_n = PFloat 22.5, status = ''FAIL''\<rparr>"
  by (simp add: estimate_b_def bar_params_def empty_params_def rectangle_area_def
      float_of_int_small py_ge_def effective_width_def material_density_def
      material_yield_strength_def int_truediv_def dbl_overflow_def)

text \<open>
  Claim C8. The estimate of \<^verbatim>\<open>vectorflow.py\<close> (yield strength times the net area) and the
  estimate of \<^verbatim>\<open>b.py\<close> (effective width times thickness, times yield strength over 1000)
  give different maximum forces for some parameters: for an aluminium bar of 200 by 30 by
  5 they are 900000 and 22.5.
\<close>

theorem max_force_formulas_differ:
  "\<exists>ps r1 r2. estimate_vf ps = Inr r1 \<and> estimate_b ps = Inr r2
     \<and> num_val (max_force_n r1) \<noteq> num_val (max_force_n r2)"
proof -
  have "num_val (PInt 900000) \<noteq> num_val (PFloat 22.5)" by simp
  with estimate_vf_bar estimate_b_bar show ?thesis
    by (metis report.select_convs(5))
qed

subsection \<open>The verdict\<close>

lemma run_stages_ok:
  assumes "run_stages preview build estimate e pr ps w = (Inr (), w')"
  shows "\<exists>rep r. estimate ps = Inr rep \<and> make_row e pr ps (save_prefix e @ ''_'' @ now e) rep = Inr r
           \<and> csv w' = csv w @ [r]"
proof (cases "preview ps")
  case (Inl err)
  with assms show ?thesis by (simp add: run_stages_def Let_def)
next
  case pv: (Inr patches)
  show ?thesis
  proof (cases "build ps")
    case (Inl err)
    with assms pv show ?thesis by (simp add: run_stages_def Let_def)
  next
    case bd: (Inr part)
    show ?thesis
    proof (cases "and_then (estimate ps) (make_row e pr ps (save_prefix e @ ''_'' @ now e))")
      case (Inl err)
      with assms pv bd show ?thesis by (simp add: run_stages_def Let_def)
    next
      case (Inr r)
      then obtain rep where "estimate ps = Inr rep"
        and "make_row e pr ps (save_prefix e @ ''_'' @ now e) rep = Inr r"
        by (auto simp: and_then_Inr_iff)
      moreover from assms pv bd Inr have "csv w' = csv w @ [r]"
        by (auto simp: run_stages_def Let_def write_file_def append_csv_def)
      ultimately show ?thesis by blast
    qed
  qed
qed

lemma make_row_fields:
  assumes "make_row e pr ps base rep = Inr r"
  shows "status r = status rep \<and> max_force_n r = max_force_n rep
         \<and> row_target_force_n r = target_force_n ps"
  using assms
  by (auto simp: make_row_def and_then_Inr_iff report.defs row.defs)

lemma estimate_vf_status:
  assumes "estimate_vf ps = Inr rep"
  shows "status rep = (if real_of_int (get_or (target_force_n ps) 2000) \<le> num_val (max_force_n rep)
                       then ''PASS'' else ''FAIL'')"
  using assms
  by (auto simp: estimate_vf_def Let_def and_then_Inr_iff py_ge_def)

lemma estimate_b_status:
  assumes "estimate_b ps = Inr rep"
  shows "status rep = (if real_of_int (get_or (target_force_n ps) 2000) \<le> num_val (max_force_n rep)
                       then ''PASS'' else ''FAIL'')"
  using assms
  by (auto simp: estimate_b_def Let_def and_then_Inr_iff py_ge_def)

lemma resolve_vf_target:
  assumes "resolve_vf ps0 = Inr ps"
  shows "target_force_n ps = target_force_n ps0"
proof -
  consider (trap) "part_type ps0 = Some ''arm'' \<or> part_type ps0 = Some ''trapezoid''"
    | (rect) "\<not> (part_type ps0 = Some ''arm'' \<or> part_type ps0 = Some ''trapezoid'')"
        "part_type ps0 = Some ''rectangle''"
    | (circ) "\<not> (part_type ps0 = Some ''arm'' \<or> part_type ps0 = Some ''trapezoid'')"
        "part_type ps0 \<noteq> Some ''rectangle''" "part_type ps0 = Some ''circle''"
    | (other) "\<not> (part_type ps0 = Some ''arm'' \<or> part_type ps0 = Some ''trapezoid'')"
        "part_type ps0 \<noteq> Some ''rectangle''" "part_type ps0 \<noteq> Some ''circle''"
    by blast
  then show ?thesis
  proof cases
    case trap
    with assms show ?thesis by (auto simp: resolve_vf_def Let_def and_then_Inr_iff)
  next
    case rect
    with assms show ?thesis by (auto simp: resolve_vf_def)
  next
    case circ
    with assms show ?thesis by (auto simp: resolve_vf_def)
  next
    case other
    with assms show ?thesis by (auto simp: resolve_vf_def)
  qed
qed

lemma parse_vf_target: "parse_prompt_vf pr = Inr ps \<Longrightarrow> \<exists>t. target_force_n ps = Some t"
  by (auto simp: parse_prompt_vf_def Let_def dest!: resolve_vf_target)

lemma fill_defaults_vf_target:
  assumes "fill_defaults_vf ps0 = Inr ps"
  shows "target_force_n ps = target_force_n ps0"
proof -
  from assms obtain pt where pt: "part_type ps0 = Some pt"
    by (cases "part_type ps0") (auto simp: fill_defaults_vf_def)
  consider (trap) "pt = ''arm'' \<or> pt = ''trapezoid''"
    | (rect) "\<not> (pt = ''arm'' \<or> pt = ''trapezoid'')" "pt = ''rectangle''"
    | (circ) "\<not> (pt = ''arm'' \<or> pt = ''trapezoid'')" "pt \<noteq> ''rectangle''" "pt = ''circle''"
    | (other) "\<not> (pt = ''arm'' \<or> pt = ''trapezoid'')" "pt \<noteq> ''rectangle''" "pt \<noteq> ''circle''"
    by blast
  then show ?thesis
  proof cases
    case trap
    with assms pt show ?thesis by (auto simp: fill_defaults_vf_def Let_def and_then_Inr_iff)
  next
    case rect
    with assms pt show ?thesis by (auto simp: fill_defaults_vf_def)
  next
    case circ
    with assms pt show ?thesis by (auto simp: fill_defaults_vf_def)
  next
    case other
    with assms pt show ?thesis by (auto simp: fill_defaults_vf_def)
  qed
qed

lemma resolve_b_target:
  assumes "resolve_b ps0 = Inr ps"
  shows "target_force_n ps = target_force_n ps0"
proof -
  from assms obtain pt where pt: "part_type ps0 = Some pt"
    by (cases "part_type ps0") (auto simp: resolve_b_def)
  consider (trap) "pt = ''arm'' \<or> pt = ''trapezoid''"
    | (rect) "\<not> (pt = ''arm'' \<or> pt = ''trapezoid'')" "pt = ''rectangle''"
    | (circ) "\<not> (pt = ''arm'' \<or> pt = ''trapezoid'')" "pt \<noteq> ''rectangle''" "pt = ''circle''"
    | (other) "\<not> (pt = ''arm'' \<or> pt = ''trapezoid'')" "pt \<noteq> ''rectangle''" "pt \<noteq> ''circle''"
    by blast
  then show ?thesis
  proof cases
    case trap
    with assms pt show ?thesis by (auto simp: resolve_b_def and_then_Inr_iff)
  next
    case rect
    with assms pt show ?thesis by (auto simp: resolve_b_def and_then_Inr_iff)
  next
    case circ
    with assms pt show ?thesis by (auto simp: resolve_b_def and_then_Inr_iff)
  next
    case other
    with assms pt show ?thesis by (auto simp: resolve_b_def)
  qed
qed

lemma parse_b_target: "parse_prompt_b pr = Inr ps \<Longrightarrow> \<exists>t. target_force_n ps = Some t"
proof -
  assume a: "parse_prompt_b pr = Inr ps"
  have 1: "\<exists>t. target_force_n (target_force_b p ps1) = Some t" if "\<exists>t. target_force_n ps1 = Some t" for p ps1
    using that by (auto simp: target_force_b_def split: option.splits)
  have 2: "target_force_n (material_b p ps1) = target_force_n ps1" for p ps1
    by (simp add: material_b_def)
  have 3: "target_force_n (holes_b p ps1) = target_force_n ps1" for p ps1
    by (simp add: holes_b_def Let_def split: option.splits)
  have 4: "target_force_n (dims_b p ps1) = target_force_n ps1" for p ps1
    by (simp add: dims_b_def Let_def split: option.splits)
  have 5: "target_force_n (part_type_b p ps1) = target_force_n ps1" for p ps1
    by (simp add: part_type_b_def)
  have 6: "target_force_n defaults_b = Some 2000" by (simp add: defaults_b_def empty_params_def)
  from a show ?thesis
    unfolding parse_prompt_b_def Let_def
    by (auto dest!: resolve_b_target intro!: 1 simp: 2 3 4 5 6)
qed

text \<open>
  Claim C1. When a run of any of the three files completes, it has appended one row to the
  log, and in that row \<^verbatim>\<open>status\<close> is \<^verbatim>\<open>PASS\<close> exactly when \<^verbatim>\<open>max_force_n\<close> is at least
  \<^verbatim>\<open>target_force_n\<close>, and \<^verbatim>\<open>FAIL\<close> otherwise.
\<close>

theorem status_pass_iff:
  assumes "run_from_prompt_vf e pr w = (Inr (), w') \<or> run_from_prompt_b e pr w = (Inr (), w')"
  shows "\<exists>r t. csv w' = csv w @ [r] \<and> row_target_force_n r = Some t
           \<and> status r = (if real_of_int t \<le> num_val (max_force_n r) then ''PASS'' else ''FAIL'')"
  using assms
proof
  assume a: "run_from_prompt_vf e pr w = (Inr (), w')"
  then obtain ps0 ps where p: "parse_prompt_vf pr = Inr ps0" and f: "fill_defaults_vf ps0 = Inr ps"
    and r: "run_stages generate_2d_preview_vf build_scad_vf estimate_vf e pr ps w = (Inr (), w')"
    by (auto simp: run_from_prompt_vf_def run_params_vf_def split: sum.splits)
  from run_stages_ok[OF r] obtain rep r where e: "estimate_vf ps = Inr rep"
    and m: "make_row e pr ps (save_prefix e @ ''_'' @ now e) rep = Inr r" and c: "csv w' = csv w @ [r]"
    by blast
  from parse_vf_target[OF p] fill_defaults_vf_target[OF f] obtain t where t: "target_force_n ps = Some t"
    by auto
  from estimate_vf_status[OF e] make_row_fields[OF m] t c show ?thesis by auto
next
  assume a: "run_from_prompt_b e pr w = (Inr (), w')"
  then obtain ps where p: "parse_prompt_b pr = Inr ps"
    and r: "run_stages generate_2d_preview_b build_scad_b estimate_b e pr ps w = (Inr (), w')"
    by (auto simp: run_from_prompt_b_def run_params_b_def split: sum.splits)
  from run_stages_ok[OF r] obtain rep r where e: "estimate_b ps = Inr rep"
    and m: "make_row e pr ps (save_prefix e @ ''_'' @ now e) rep = Inr r" and c: "csv w' = csv w @ [r]"
    by blast
  from parse_b_target[OF p] obtain t where t: "target_force_n ps = Some t"
    by auto
  from estimate_b_status[OF e] make_row_fields[OF m] t c show ?thesis by auto
qed


lemma fill_defaults_vf_arm: "fill_defaults_vf arm_params = Inr arm_params"
  by (simp add: fill_defaults_vf_def arm_params_def empty_params_def setdefault_def half_int_def
      float_of_int_small int_of_float_def Let_def)

lemma estimate_vf_arm:
  "estimate_vf arm_params = Inr \<lparr>net_area_mm2 = PFloat 5625, thickness_mm = 5,
     volume_cm3 = 28.125, weight_g = 75.9375, max_force_n = PFloat 843750, status = ''PASS''\<rparr>"
  by (simp add: estimate_vf_def arm_params_def empty_params_def trapezoid_area_def
      float_of_int_small py_ge_def)

lemma run_vf_arm_ok: "fst (run_from_prompt_vf example_env arm_prompt empty_world) = Inr ()"
proof -
  have pt: "part_type arm_params = Some ''arm''" by (simp add: arm_params_def empty_params_def)
  show ?thesis
    by (simp add: run_from_prompt_vf_def run_params_vf_def parse_vf_arm fill_defaults_vf_arm
        run_stages_def preview_vf_arm build_vf_arm estimate_vf_arm Let_def make_row_def pt)
qed

theorem status_pass_iff_witness:
  "fst (run_from_prompt_vf example_env arm_prompt empty_world) = Inr ()
   \<and> (\<exists>r t. csv (snd (run_from_prompt_vf example_env arm_prompt empty_world)) = csv empty_world @ [r]
          \<and> row_target_force_n r = Some t
          \<and> status r = (if real_of_int t \<le> num_val (max_force_n r) then ''PASS'' else ''FAIL''))"
proof -
  have "run_from_prompt_vf example_env arm_prompt empty_world
          = (Inr (), snd (run_from_prompt_vf example_env arm_prompt empty_world))"
    using run_vf_arm_ok by (metis prod.collapse)
  then have "run_from_prompt_vf example_env arm_prompt empty_world
          = (Inr (), snd (run_from_prompt_vf example_env arm_prompt empty_world))
      \<or> run_from_prompt_b example_env arm_prompt empty_world
          = (Inr (), snd (run_from_prompt_vf example_env arm_prompt empty_world))" ..
  from status_pass_iff[OF this] run_vf_arm_ok show ?thesis by blast
qed

subsection \<open>The matcher on the patterns for a number with a unit\<close>

lemma lit_eq:
  "lit w (b, s, c) =
     (if take (length w) s = w then [(prev_after b w, drop (length w) s, c)] else [])"
proof (induction w arbitrary: b s)
  case Nil
  then show ?case by (simp add: prev_after_def)
next
  case (Cons y ys)
  show ?case
  proof (cases s)
    case Nil
    then show ?thesis by simp
  next
    case (Cons x xs)
    then show ?thesis using Cons.IH[of "is_word x" xs]
      by (auto simp: prev_after_def)
  qed
qed

lemma star_iter_no_step:
  "f st = [] \<Longrightarrow> star_iter n f st = [st]"
  by (cases n) auto

lemma star_one_char:
  assumes g: "\<And>b x xs c. P x \<Longrightarrow> g (b, x # xs, c) = []"
  shows "length s \<le> n \<Longrightarrow>
     concat (map g (star_iter n (one_char P) (b, s, c)))
       = g (prev_after b (takeWhile P s), dropWhile P s, c)"
proof (induction s arbitrary: n b)
  case Nil
  then show ?case by (simp add: star_iter_no_step prev_after_def)
next
  case (Cons x xs)
  show ?case
  proof (cases "P x")
    case False
    then show ?thesis by (simp add: star_iter_no_step prev_after_def)
  next
    case True
    from Cons.prems obtain m where n: "n = Suc m" and m: "length xs \<le> m"
      by (cases n) auto
    have "prev_after (is_word x) (takeWhile P xs) = prev_after b (takeWhile P (x # xs))"
      using True by (simp add: prev_after_def)
    with True n Cons.IH[OF m, of "is_word x"] g[OF True, of b xs c]
    show ?thesis by simp
  qed
qed


lemma matches_Space_fun: "matches Space = one_char is_space"
  by (rule ext) simp

lemma matches_Digit_fun: "matches Digit = one_char is_digit"
  by (rule ext) simp

lemma matches_Lit_fun: "matches (Lit w) = lit w"
  by (rule ext) simp

lemma digit_not_space: "is_digit x \<Longrightarrow> \<not> is_space x"
  by (auto simp: is_digit_def is_space_def)

lemma digit_not_m: "is_digit x \<Longrightarrow> x \<noteq> CHR ''m''"
  by (auto simp: is_digit_def)

lemma space_not_m: "is_space x \<Longrightarrow> x \<noteq> CHR ''m''"
  by (auto simp: is_space_def)

lemma is_word_m: "is_word CHR ''m''"
  by (simp add: is_word_def is_lower_def)

lemma digit_is_word: "is_digit x \<Longrightarrow> is_word x"
  by (simp add: is_word_def)

lemma take_length_dropWhile:
  "take (length xs - length (dropWhile P xs)) xs = takeWhile P xs"
proof -
  have "length xs = length (takeWhile P xs) + length (dropWhile P xs)"
    by (metis length_append takeWhile_dropWhile_id)
  then have "length xs - length (dropWhile P xs) = length (takeWhile P xs)" by simp
  then show ?thesis by (metis append_eq_conv_conj takeWhile_dropWhile_id)
qed

text \<open>Spaces, then the unit mm.\<close>

lemma spaces_mm:
  "matches (Seq (Star Space) (Lit ''mm'')) (b, s, c) =
     lit ''mm'' (prev_after b (takeWhile is_space s), dropWhile is_space s, c)"
proof -
  have "lit ''mm'' (b', x # xs, c') = []" if "is_space x" for b' x xs c'
    using space_not_m[OF that] by simp
  from star_one_char[where g = "lit ''mm''" and P = is_space, OF this, of s "length s" b c]
  show ?thesis by (simp add: matches_Space_fun matches_Lit_fun)
qed

lemma spaces_mm_digit:
  "is_digit x \<Longrightarrow> matches (Seq (Star Space) (Lit ''mm'')) (b, x # xs, c) = []"
  using digit_not_space[of x] digit_not_m[of x] by (simp add: spaces_mm)

lemma plus_digit_then:
  assumes g: "\<And>b x xs c. is_digit x \<Longrightarrow> matches k (b, x # xs, c) = []"
  shows "matches (Seq (Group 1 (Plus Digit)) k) (b, s, c) =
     (if takeWhile is_digit s = [] then []
      else matches k (True, dropWhile is_digit s, (1, takeWhile is_digit s) # c))"
proof (cases s)
  case Nil
  then show ?thesis by simp
next
  case (Cons x xs)
  show ?thesis
  proof (cases "is_digit x")
    case False
    with Cons show ?thesis by simp
  next
    case True
    let ?g = "\<lambda>st. matches k (capture 1 (b, x # xs, c) st)"
    have gd: "?g (b', y # ys, c') = []" if "is_digit y" for b' y ys c'
      using g[OF that] by simp
    have pa: "prev_after (is_word x) (takeWhile is_digit xs) = True"
    proof (cases "takeWhile is_digit xs = []")
      case True
      with \<open>is_digit x\<close> show ?thesis by (simp add: prev_after_def digit_is_word)
    next
      case False
      then have "last (takeWhile is_digit xs) \<in> set (takeWhile is_digit xs)" by (rule last_in_set)
      then have "is_digit (last (takeWhile is_digit xs))" by (rule set_takeWhileD[THEN conjunct2])
      with False show ?thesis by (simp add: prev_after_def digit_is_word)
    qed
    have tk: "take (Suc (length xs) - length (dropWhile is_digit xs)) (x # xs)
                = x # takeWhile is_digit xs"
    proof -
      have "length (dropWhile is_digit xs) \<le> length xs" by (rule length_dropWhile_le)
      then have "Suc (length xs) - length (dropWhile is_digit xs)
                   = Suc (length xs - length (dropWhile is_digit xs))" by simp
      then show ?thesis by (simp add: take_length_dropWhile)
    qed
    have "matches (Seq (Group 1 (Plus Digit)) k) (b, x # xs, c)
            = concat (map ?g (star_iter (length xs) (one_char is_digit) (is_word x, xs, c)))"
      using True by (simp add: comp_def matches_Digit_fun)
    also have "\<dots> = ?g (prev_after (is_word x) (takeWhile is_digit xs), dropWhile is_digit xs, c)"
      by (rule star_one_char[where g = ?g and P = is_digit and n = "length xs" and s = xs,
            OF gd order_refl])
    also have "\<dots> = matches k (True, dropWhile is_digit xs, (1, x # takeWhile is_digit xs) # c)"
      by (simp add: pa tk)
    finally show ?thesis using True Cons by simp
  qed
qed

lemma matches_pat_mm:
  "matches pat_mm (b, s, c) =
     (case number_at ''mm'' s of
        None \<Rightarrow> []
      | Some ds \<Rightarrow> [(True, drop 2 (dropWhile is_space (dropWhile is_digit s)), (1, ds) # c)])"
proof -
  have "matches pat_mm (b, s, c) =
     (if takeWhile is_digit s = [] then []
      else matches (Seq (Star Space) (Lit ''mm'')) (True, dropWhile is_digit s, (1, takeWhile is_digit s) # c))"
    unfolding pat_mm_def cat.simps
    by (rule plus_digit_then) (rule spaces_mm_digit)
  then show ?thesis
    by (simp add: spaces_mm lit_eq number_at_def Let_def prev_after_def is_word_m numeral_2_eq_2
        del: matches.simps)
qed


text \<open>The pattern of b.py: the unit is one letter m or more.\<close>

lemma star_iter_self: "st \<in> set (star_iter n f st)"
  by (cases n) auto

lemma star_iter_caps:
  assumes f: "\<And>st st'. st' \<in> set (f st) \<Longrightarrow> snd (snd st') = snd (snd st)"
  shows "st' \<in> set (star_iter n f st) \<Longrightarrow> snd (snd st') = snd (snd st)"
proof (induction n arbitrary: st)
  case 0
  then show ?case by simp
next
  case (Suc n)
  from Suc.prems consider "st' = st"
    | st1 where "st1 \<in> set (f st)" "st' \<in> set (star_iter n f st1)"
    by auto
  then show ?case
  proof cases
    case 1
    then show ?thesis by simp
  next
    case 2
    with Suc.IH[of st1] f[of st1 st] show ?thesis by simp
  qed
qed

lemma lit_caps: "st' \<in> set (lit w st) \<Longrightarrow> snd (snd st') = snd (snd st)"
  by (cases st) (auto simp: lit_eq split: if_splits)

lemma ms_m_caps:
  "st' \<in> set (matches (Seq (Star (Lit ''m'')) (Lit ''m'')) st) \<Longrightarrow> snd (snd st') = snd (snd st)"
proof -
  assume "st' \<in> set (matches (Seq (Star (Lit ''m'')) (Lit ''m'')) st)"
  then obtain st1 where 1: "st1 \<in> set (star_iter (rest_len st) (lit ''m'') st)"
    and 2: "st' \<in> set (lit ''m'' st1)"
    by (auto simp: matches_Lit_fun)
  from star_iter_caps[where f = "lit ''m''", OF lit_caps 1] lit_caps[OF 2] show ?thesis by simp
qed

lemma ms_m_empty_iff:
  "matches (Seq (Star (Lit ''m'')) (Lit ''m'')) (b, s, c) = [] \<longleftrightarrow> take 1 s \<noteq> ''m''"
proof (cases "take 1 s = ''m''")
  case True
  then have "lit ''m'' (b, s, c) \<noteq> []" by (simp add: lit_eq)
  moreover have "(b, s, c) \<in> set (star_iter (length s) (lit ''m'') (b, s, c))" by (rule star_iter_self)
  ultimately have "matches (Seq (Star (Lit ''m'')) (Lit ''m'')) (b, s, c) \<noteq> []"
    by (auto simp: matches_Lit_fun)
  with True show ?thesis by simp
next
  case False
  then have "lit ''m'' (b, s, c) = []" by (simp add: lit_eq)
  then show ?thesis using False by (simp add: matches_Lit_fun star_iter_no_step)
qed

lemma spaces_ms_m:
  "matches (Seq (Star Space) (Seq (Star (Lit ''m'')) (Lit ''m''))) (b, s, c) =
     matches (Seq (Star (Lit ''m'')) (Lit ''m''))
       (prev_after b (takeWhile is_space s), dropWhile is_space s, c)"
proof -
  let ?g = "matches (Seq (Star (Lit ''m'')) (Lit ''m''))"
  have "?g (b', x # xs, c') = []" if "is_space x" for b' x xs c'
    using space_not_m[OF that] by (simp add: ms_m_empty_iff)
  from star_one_char[where g = ?g and P = is_space, OF this, of s "length s" b c]
  have "concat (map ?g (star_iter (length s) (one_char is_space) (b, s, c)))
          = ?g (prev_after b (takeWhile is_space s), dropWhile is_space s, c)" by simp
  moreover have "matches (Seq (Star Space) (Seq (Star (Lit ''m'')) (Lit ''m''))) (b, s, c)
          = concat (map ?g (star_iter (length s) (one_char is_space) (b, s, c)))"
    by (simp only: matches.simps(6) matches.simps(9) rest_len.simps matches_Space_fun)
  ultimately show ?thesis by (simp only:)
qed

lemma spaces_ms_m_digit:
  "is_digit x \<Longrightarrow> matches (Seq (Star Space) (Seq (Star (Lit ''m'')) (Lit ''m''))) (b, x # xs, c) = []"
  using digit_not_space[of x] digit_not_m[of x]
  by (simp add: spaces_ms_m ms_m_empty_iff del: matches.simps)

lemma matches_pat_dims_b:
  "matches pat_dims_b (b, s, c) =
     (if takeWhile is_digit s = [] then []
      else matches (Seq (Star (Lit ''m'')) (Lit ''m''))
             (prev_after True (takeWhile is_space (dropWhile is_digit s)),
              dropWhile is_space (dropWhile is_digit s), (1, takeWhile is_digit s) # c))"
proof -
  have "matches pat_dims_b (b, s, c) =
     (if takeWhile is_digit s = [] then []
      else matches (Seq (Star Space) (Seq (Star (Lit ''m'')) (Lit ''m'')))
             (True, dropWhile is_digit s, (1, takeWhile is_digit s) # c))"
    unfolding pat_dims_b_def cat.simps
    by (rule plus_digit_then) (rule spaces_ms_m_digit)
  then show ?thesis by (simp add: spaces_ms_m del: matches.simps)
qed

lemma pat_dims_b_empty_iff:
  "matches pat_dims_b (b, s, c) = [] \<longleftrightarrow> number_at ''m'' s = None"
  by (simp add: matches_pat_dims_b ms_m_empty_iff number_at_def Let_def del: matches.simps)

lemma pat_dims_b_caps:
  assumes "number_at ''m'' s = Some ds" "st \<in> set (matches pat_dims_b (b, s, c))"
  shows "snd (snd st) = (1, ds) # c"
proof -
  from assms(1) have ds: "ds = takeWhile is_digit s" "takeWhile is_digit s \<noteq> []"
    by (auto simp: number_at_def Let_def split: if_splits)
  with assms(2) ms_m_caps[of st] show ?thesis
    by (simp add: matches_pat_dims_b del: matches.simps)
qed

lemma pat_mm_empty_iff:
  "matches pat_mm (b, s, c) = [] \<longleftrightarrow> number_at ''mm'' s = None"
  by (simp add: matches_pat_mm split: option.splits)

lemma pat_mm_caps:
  assumes "number_at ''mm'' s = Some ds" "st \<in> set (matches pat_mm (b, s, c))"
  shows "snd (snd st) = (1, ds) # c"
  using assms by (auto simp: matches_pat_mm)

text \<open>Searching with a pattern that finds the number with a unit.\<close>

lemma search_first_number:
  assumes e: "\<And>b s. (matches r (b, s, []) = []) = (number_at u s = None)"
    and c: "\<And>b s ds st. number_at u s = Some ds \<Longrightarrow> st \<in> set (matches r (b, s, [])) \<Longrightarrow>
              snd (snd st) = [(1, ds)]"
  shows "search_from r b s = map_option (\<lambda>ds. [(1, ds)]) (first_number u s)"
proof (induction s arbitrary: b)
  case Nil
  have "number_at u [] = None" by (simp add: number_at_def)
  with e[of b "[]"] show ?case by simp
next
  case (Cons x xs)
  show ?case
  proof (cases "number_at u (x # xs)")
    case None
    with e[of b "x # xs"] Cons.IH show ?thesis by simp
  next
    case (Some ds)
    with e[of b "x # xs"] obtain st sts where m: "matches r (b, x # xs, []) = st # sts"
      by (cases "matches r (b, x # xs, [])") auto
    with c[OF Some, of st b] have "snd (snd st) = [(1, ds)]" by simp
    with m Some show ?thesis by (cases st) auto
  qed
qed

lemma findall_first:
  "findall_from r b s = (case search_from r b s of None \<Rightarrow> [] | Some c \<Rightarrow> c # tl (findall_from r b s))"
proof (induction s arbitrary: b)
  case Nil
  show ?case
    by (subst (1 2) findall_from.simps) (auto split: list.splits)
next
  case (Cons x xs)
  show ?case
  proof (cases "matches r (b, x # xs, [])")
    case Nil
    with Cons.IH[of "is_word x"] show ?thesis
      by (subst (1 2) findall_from.simps) (simp split: option.splits)
  next
    case (Cons st sts)
    then show ?thesis
      by (subst (1 2) findall_from.simps) (auto split: list.splits prod.splits)
  qed
qed


subsection \<open>The length is the first number with a unit\<close>

lemma re_search_pat_mm:
  "re_search pat_mm p = map_option (\<lambda>ds. [(1, ds)]) (first_number ''mm'' p)"
  unfolding re_search_def
  by (rule search_first_number) (auto simp: pat_mm_empty_iff dest: pat_mm_caps)

lemma search_pat_dims_b:
  "search_from pat_dims_b False p = map_option (\<lambda>ds. [(1, ds)]) (first_number ''m'' p)"
  by (rule search_first_number) (auto simp: pat_dims_b_empty_iff dest: pat_dims_b_caps)

lemma group1_int_single: "group1_int [(Suc 0, ds)] = int_of_digits ds"
  by (simp add: group1_int_def mgroup_def)

lemma length_vf_first:
  "first_number ''mm'' p = Some ds \<Longrightarrow> length_vf p = int_of_digits ds"
  by (simp add: length_vf_def re_search_pat_mm group1_int_single)

lemma resolve_vf_length:
  assumes "resolve_vf ps0 = Inr ps" "length_mm ps0 = Some l"
  shows "length_mm ps = Some l \<and> (part_type ps = Some ''circle'' \<longrightarrow> circle_diameter ps = Some l)"
proof -
  consider (trap) "part_type ps0 = Some ''arm'' \<or> part_type ps0 = Some ''trapezoid''"
    | (rect) "\<not> (part_type ps0 = Some ''arm'' \<or> part_type ps0 = Some ''trapezoid'')"
        "part_type ps0 = Some ''rectangle''"
    | (circ) "\<not> (part_type ps0 = Some ''arm'' \<or> part_type ps0 = Some ''trapezoid'')"
        "part_type ps0 \<noteq> Some ''rectangle''" "part_type ps0 = Some ''circle''"
    | (other) "\<not> (part_type ps0 = Some ''arm'' \<or> part_type ps0 = Some ''trapezoid'')"
        "part_type ps0 \<noteq> Some ''rectangle''" "part_type ps0 \<noteq> Some ''circle''"
    by blast
  then show ?thesis
  proof cases
    case trap
    with assms show ?thesis by (auto simp: resolve_vf_def Let_def and_then_Inr_iff)
  next
    case rect
    with assms show ?thesis by (auto simp: resolve_vf_def)
  next
    case circ
    with assms show ?thesis by (auto simp: resolve_vf_def)
  next
    case other
    with assms show ?thesis by (auto simp: resolve_vf_def)
  qed
qed

lemma resolve_b_length:
  assumes "resolve_b ps0 = Inr ps" "length_mm ps0 = Some l"
  shows "length_mm ps = Some l \<and> (part_type ps = Some ''circle'' \<longrightarrow> circle_diameter ps = Some l)"
proof -
  from assms obtain pt where pt: "part_type ps0 = Some pt"
    by (cases "part_type ps0") (auto simp: resolve_b_def)
  consider (trap) "pt = ''arm'' \<or> pt = ''trapezoid''"
    | (rect) "\<not> (pt = ''arm'' \<or> pt = ''trapezoid'')" "pt = ''rectangle''"
    | (circ) "\<not> (pt = ''arm'' \<or> pt = ''trapezoid'')" "pt \<noteq> ''rectangle''" "pt = ''circle''"
    | (other) "\<not> (pt = ''arm'' \<or> pt = ''trapezoid'')" "pt \<noteq> ''rectangle''" "pt \<noteq> ''circle''"
    by blast
  then show ?thesis
  proof cases
    case trap
    with assms pt show ?thesis by (auto simp: resolve_b_def and_then_Inr_iff)
  next
    case rect
    with assms pt show ?thesis by (auto simp: resolve_b_def and_then_Inr_iff)
  next
    case circ
    with assms pt show ?thesis by (auto simp: resolve_b_def and_then_Inr_iff)
  next
    case other
    with assms pt show ?thesis by (auto simp: resolve_b_def)
  qed
qed

lemma dims_b_length:
  assumes "first_number ''m'' p = Some ds"
  shows "length_mm (dims_b p ps) = Some (int_of_digits ds)"
proof -
  from assms have "search_from pat_dims_b False p = Some [(1, ds)]"
    by (simp add: search_pat_dims_b)
  with findall_first[of pat_dims_b False p]
  obtain cs where "findall_from pat_dims_b False p = [(1, ds)] # cs" by simp
  then have "re_findall1 pat_dims_b p = ds # map (\<lambda>c. case mgroup c 1 of None \<Rightarrow> [] | Some t \<Rightarrow> t) cs"
    by (simp add: re_findall1_def mgroup_def)
  then show ?thesis
    by (simp add: dims_b_def Let_def split: option.splits)
qed

lemma holes_b_length: "length_mm (holes_b p ps) = length_mm ps"
  by (simp add: holes_b_def Let_def split: option.splits)

lemma material_b_length: "length_mm (material_b p ps) = length_mm ps"
  by (simp add: material_b_def)

lemma target_force_b_length: "length_mm (target_force_b p ps) = length_mm ps"
  by (simp add: target_force_b_def split: option.splits)

text \<open>
  Claim C10, as the code has it. In \<^verbatim>\<open>vectorflow.py\<close> and \<^verbatim>\<open>a.py\<close> the length is the first
  number of the lower-cased prompt that is followed, after any white space, by \<^verbatim>\<open>mm\<close>,
  whatever stands around it; in \<^verbatim>\<open>b.py\<close>, whose pattern is \<^verbatim>\<open>(\d+)\s*m*m\<close>, it is the
  first number followed by one letter \<^verbatim>\<open>m\<close> or more. For a circle the same number is the
  diameter.
\<close>

theorem length_is_first_number:
  assumes "parse_prompt_vf pr = Inr ps \<and> first_number ''mm'' (lower pr) = Some ds
         \<or> parse_prompt_b pr = Inr ps \<and> first_number ''m'' (lower pr) = Some ds"
  shows "length_mm ps = Some (int_of_digits ds)
         \<and> (part_type ps = Some ''circle'' \<longrightarrow> circle_diameter ps = Some (int_of_digits ds))"
  using assms
proof
  assume a: "parse_prompt_vf pr = Inr ps \<and> first_number ''mm'' (lower pr) = Some ds"
  then have "length_vf (lower pr) = int_of_digits ds" by (simp add: length_vf_first)
  with a show ?thesis
    unfolding parse_prompt_vf_def Let_def
    by (intro resolve_vf_length[where l = "int_of_digits ds"]) auto
next
  assume a: "parse_prompt_b pr = Inr ps \<and> first_number ''m'' (lower pr) = Some ds"
  then have "length_mm (target_force_b (lower pr) (material_b (lower pr) (holes_b (lower pr)
      (dims_b (lower pr) (part_type_b (lower pr) defaults_b))))) = Some (int_of_digits ds)"
    by (simp add: target_force_b_length material_b_length holes_b_length dims_b_length)
  with a show ?thesis
    unfolding parse_prompt_b_def Let_def
    by (intro resolve_b_length[where l = "int_of_digits ds"]) auto
qed

lemma parse_vf_thick: "parse_prompt_vf thick_prompt = Inr thick_params"
  by code_simp

lemma first_number_thick: "first_number ''mm'' (lower thick_prompt) = Some ''6''"
  by code_simp

lemma parse_b_metre: "parse_prompt_b metre_prompt = Inr metre_params_b"
  by code_simp

lemma first_number_metre: "first_number ''mm'' (lower metre_prompt) = Some ''20''"
  by code_simp

theorem length_is_first_number_witness:
  "parse_prompt_vf thick_prompt = Inr thick_params
   \<and> first_number ''mm'' (lower thick_prompt) = Some ''6''
   \<and> thickness thick_params = Some 6
   \<and> length_mm thick_params = Some (int_of_digits ''6'')
   \<and> part_type thick_params = Some ''circle''
   \<and> circle_diameter thick_params = Some (int_of_digits ''6'')"
proof -
  have "parse_prompt_vf thick_prompt = Inr thick_params
        \<and> first_number ''mm'' (lower thick_prompt) = Some ''6''
      \<or> parse_prompt_b thick_prompt = Inr thick_params
        \<and> first_number ''m'' (lower thick_prompt) = Some ''6''"
    by (simp add: parse_vf_thick first_number_thick)
  from length_is_first_number[OF this] parse_vf_thick first_number_thick
  show ?thesis by (simp add: thick_params_def empty_params_def)
qed

text \<open>In \<^verbatim>\<open>b.py\<close> a number in metres comes first: the first number with \<^verbatim>\<open>mm\<close> is 20,
  the length and the diameter are 3.\<close>

theorem length_first_mm_counterexample:
  "first_number ''mm'' (lower metre_prompt) = Some ''20''
   \<and> (\<exists>ps. parse_prompt_b metre_prompt = Inr ps \<and> part_type ps = Some ''circle''
         \<and> length_mm ps = Some 3 \<and> circle_diameter ps = Some 3
         \<and> length_mm ps \<noteq> Some (int_of_digits ''20''))"
  by (simp add: first_number_metre parse_b_metre metre_params_b_def empty_params_def
      int_of_digits_def digit_val_def)

subsection \<open>The part type and the keywords\<close>

lemma search_from_occurs:
  assumes "\<And>b s. (matches r (b, s, []) \<noteq> []) = occurs_here lb w rb b s"
  shows "(search_from r b s \<noteq> None) = occurs_from lb w rb b s"
proof (induction s arbitrary: b)
  case Nil
  show ?case using assms[of b "[]"]
    by (cases "matches r (b, [], [])") auto
next
  case (Cons x xs)
  show ?case using assms[of b "x # xs"] Cons.IH[of "is_word x"]
    by (cases "matches r (b, x # xs, [])") auto
qed

lemma search_from_alt:
  "(search_from (Alt r1 r2) b s \<noteq> None)
     = (search_from r1 b s \<noteq> None \<or> search_from r2 b s \<noteq> None)"
proof (induction s arbitrary: b)
  case Nil
  show ?case
    by (cases "matches r1 (b, [], [])"; cases "matches r2 (b, [], [])") auto
next
  case (Cons x xs)
  show ?case using Cons.IH[of "is_word x"]
    by (cases "matches r1 (b, x # xs, [])"; cases "matches r2 (b, x # xs, [])") auto
qed

lemma search_from_cong:
  assumes "\<And>b s. (matches r (b, s, []) \<noteq> []) = (matches r' (b, s, []) \<noteq> [])"
  shows "(search_from r b s \<noteq> None) = (search_from r' b s \<noteq> None)"
proof (induction s arbitrary: b)
  case Nil
  show ?case using assms[of b "[]"]
    by (cases "matches r (b, [], [])"; cases "matches r' (b, [], [])") auto
next
  case (Cons x xs)
  show ?case using assms[of b "x # xs"] Cons.IH[of "is_word x"]
    by (cases "matches r (b, x # xs, [])"; cases "matches r' (b, x # xs, [])") auto
qed

lemma matches_whole_word:
  "(matches (cat [WordB, Lit w, WordB]) (b, s, []) \<noteq> []) = occurs_here True w True b s"
  by (auto simp: lit_eq occurs_here_def)

lemma matches_word_start:
  "(matches (cat [WordB, Lit w]) (b, s, []) \<noteq> []) = occurs_here True w False b s"
  by (auto simp: lit_eq occurs_here_def)

lemma matches_word_end:
  "(matches (cat [Lit w, WordB]) (b, s, []) \<noteq> []) = occurs_here False w True b s"
  by (auto simp: lit_eq occurs_here_def)

lemma lit_append: "concat (map (lit v) (lit u (b, s, c))) = lit (u @ v) (b, s, c)"
proof (induction u arbitrary: b s)
  case Nil
  show ?case by simp
next
  case (Cons y ys)
  show ?case
  proof (cases s)
    case Nil
    then show ?thesis by simp
  next
    case (Cons x xs)
    then show ?thesis using Cons.IH[of "is_word x" xs] by auto
  qed
qed

lemma seq_lit_lit:
  "matches (Seq (Lit u) (Seq (Lit v) r)) (b, s, c) = matches (Seq (Lit (u @ v)) r) (b, s, c)"
proof -
  have "matches (Seq (Lit (u @ v)) r) (b, s, c)
          = concat (map (matches r) (concat (map (lit v) (lit u (b, s, c)))))"
    by (simp only: lit_append) simp
  then show ?thesis
    by (cases "take (length u) s = u") (simp_all add: lit_eq[of u])
qed

lemma seq_lit_opt:
  "matches (Seq (Lit u) (Seq (Opt (Lit v)) r)) (b, s, c)
     = matches (Seq (Lit (u @ v)) r) (b, s, c) @ matches (Seq (Lit u) r) (b, s, c)"
proof (cases "take (length u) s = u")
  case True
  have "matches (Seq (Lit (u @ v)) r) (b, s, c)
          = concat (map (matches r) (concat (map (lit v) (lit u (b, s, c)))))"
    by (simp only: lit_append) simp
  then show ?thesis using True by (simp add: lit_eq[of u])
next
  case False
  have "matches (Seq (Lit (u @ v)) r) (b, s, c)
          = concat (map (matches r) (concat (map (lit v) (lit u (b, s, c)))))"
    by (simp only: lit_append) simp
  then show ?thesis using False by (simp add: lit_eq[of u])
qed

lemma matches_l_bracket:
  "(matches (cat [WordB, Lit ''l'', Opt (Lit ''-''), Lit ''bracket'', WordB]) (b, s, []) \<noteq> [])
     = (occurs_here True ''l-bracket'' True b s \<or> occurs_here True ''lbracket'' True b s)"
proof -
  have 1: "matches (cat [Lit ''l'', Opt (Lit ''-''), Lit ''bracket'', WordB]) (b, s, [])
             = matches (cat [Lit ''l-bracket'', WordB]) (b, s, [])
               @ matches (cat [Lit ''lbracket'', WordB]) (b, s, [])"
    using seq_lit_opt[of "''l''" "''-''" "Seq (Lit ''bracket'') WordB" b s "[]"]
      seq_lit_lit[of "''l-''" "''bracket''" WordB b s "[]"]
      seq_lit_lit[of "''l''" "''bracket''" WordB b s "[]"]
    by simp
  have "matches (cat [WordB, Lit ''l'', Opt (Lit ''-''), Lit ''bracket'', WordB]) (b, s, [])
          = (if at_boundary (b, s, []) then
               matches (cat [Lit ''l'', Opt (Lit ''-''), Lit ''bracket'', WordB]) (b, s, [])
             else [])"
    by simp
  then have "(matches (cat [WordB, Lit ''l'', Opt (Lit ''-''), Lit ''bracket'', WordB]) (b, s, []) \<noteq> [])
      = (at_boundary (b, s, []) \<and> (matches (cat [Lit ''l-bracket'', WordB]) (b, s, []) \<noteq> []
           \<or> matches (cat [Lit ''lbracket'', WordB]) (b, s, []) \<noteq> []))"
    by (simp only: 1) auto
  then show ?thesis
    by (simp only: matches_word_end) (auto simp: occurs_here_def)
qed


lemma search_whole_word:
  "(re_search (cat [WordB, Lit w, WordB]) p \<noteq> None) = whole_word w p"
  unfolding re_search_def whole_word_def
  by (rule search_from_occurs) (rule matches_whole_word)

lemma search_pat_arm: "(re_search pat_arm p \<noteq> None) = whole_word ''arm'' p"
  unfolding pat_arm_def by (rule search_whole_word)

lemma search_pat_plate: "(re_search pat_plate p \<noteq> None) = whole_word ''plate'' p"
  unfolding pat_plate_def by (rule search_whole_word)

lemma search_pat_rectangle:
  "(re_search pat_rectangle p \<noteq> None) = (word_start ''rectangl'' p \<or> word_end ''bar'' p)"
proof -
  have 1: "(search_from (cat [WordB, Lit ''rectangl'']) False p \<noteq> None)
             = occurs_from True ''rectangl'' False False p"
    by (rule search_from_occurs) (rule matches_word_start)
  have 2: "(search_from (cat [Lit ''bar'', WordB]) False p \<noteq> None)
             = occurs_from False ''bar'' True False p"
    by (rule search_from_occurs) (rule matches_word_end)
  show ?thesis
    unfolding re_search_def pat_rectangle_def word_start_def word_end_def search_from_alt 1 2 ..
qed

lemma search_l_hyphen_bracket:
  "(search_from (cat [WordB, Lit ''l'', Opt (Lit ''-''), Lit ''bracket'', WordB]) b p \<noteq> None)
     = (occurs_from True ''l-bracket'' True b p \<or> occurs_from True ''lbracket'' True b p)"
proof -
  let ?r = "Alt (cat [WordB, Lit ''l-bracket'', WordB]) (cat [WordB, Lit ''lbracket'', WordB])"
  have "(matches (cat [WordB, Lit ''l'', Opt (Lit ''-''), Lit ''bracket'', WordB]) (b', s, []) \<noteq> [])
          = (matches ?r (b', s, []) \<noteq> [])" for b' s
    using matches_l_bracket[of b' s] matches_whole_word[of "''l-bracket''" b' s]
      matches_whole_word[of "''lbracket''" b' s]
    by (simp del: cat.simps lit.simps)
  then have "(search_from (cat [WordB, Lit ''l'', Opt (Lit ''-''), Lit ''bracket'', WordB]) b p \<noteq> None)
          = (search_from ?r b p \<noteq> None)"
    by (rule search_from_cong)
  moreover have "(search_from (cat [WordB, Lit ''l-bracket'', WordB]) b p \<noteq> None)
          = occurs_from True ''l-bracket'' True b p"
    by (rule search_from_occurs) (rule matches_whole_word)
  moreover have "(search_from (cat [WordB, Lit ''lbracket'', WordB]) b p \<noteq> None)
          = occurs_from True ''lbracket'' True b p"
    by (rule search_from_occurs) (rule matches_whole_word)
  ultimately show ?thesis by (simp only: search_from_alt)
qed

lemma search_pat_l_bracket:
  "(re_search pat_l_bracket p \<noteq> None)
     = (whole_word ''l-bracket'' p \<or> whole_word ''lbracket'' p \<or> whole_word ''l bracket'' p)"
proof -
  have "(search_from (cat [WordB, Lit ''l bracket'', WordB]) False p \<noteq> None)
          = occurs_from True ''l bracket'' True False p"
    by (rule search_from_occurs) (rule matches_whole_word)
  then show ?thesis
    unfolding re_search_def pat_l_bracket_def whole_word_def search_from_alt
      search_l_hyphen_bracket
    by blast
qed

lemma whole_word_end: "occurs_from True w True b s \<Longrightarrow> occurs_from False w True b s"
  by (induction s arbitrary: b) (auto simp: occurs_here_def)

lemma part_type_vf_keyword:
  assumes "word_end ''bar'' p \<longrightarrow> whole_word ''bar'' p"
  shows "part_type_vf p = keyword_type_vf p"
proof -
  have "word_end ''bar'' p = whole_word ''bar'' p"
    using assms whole_word_end[of "''bar''" False p]
    by (auto simp: word_end_def whole_word_def)
  then show ?thesis
    by (simp only: part_type_vf_def keyword_type_vf_def search_pat_arm search_pat_l_bracket
        search_pat_plate search_pat_rectangle) simp
qed

lemma resolve_vf_part_type:
  assumes "resolve_vf ps0 = Inr ps"
  shows "part_type ps = part_type ps0"
proof -
  consider (trap) "part_type ps0 = Some ''arm'' \<or> part_type ps0 = Some ''trapezoid''"
    | (rect) "\<not> (part_type ps0 = Some ''arm'' \<or> part_type ps0 = Some ''trapezoid'')"
        "part_type ps0 = Some ''rectangle''"
    | (circ) "\<not> (part_type ps0 = Some ''arm'' \<or> part_type ps0 = Some ''trapezoid'')"
        "part_type ps0 \<noteq> Some ''rectangle''" "part_type ps0 = Some ''circle''"
    | (other) "\<not> (part_type ps0 = Some ''arm'' \<or> part_type ps0 = Some ''trapezoid'')"
        "part_type ps0 \<noteq> Some ''rectangle''" "part_type ps0 \<noteq> Some ''circle''"
    by blast
  then show ?thesis
  proof cases
    case trap
    with assms show ?thesis by (auto simp: resolve_vf_def Let_def and_then_Inr_iff)
  next
    case rect
    with assms show ?thesis by (auto simp: resolve_vf_def)
  next
    case circ
    with assms show ?thesis by (auto simp: resolve_vf_def)
  next
    case other
    with assms show ?thesis by (auto simp: resolve_vf_def)
  qed
qed

lemma resolve_b_part_type:
  assumes "resolve_b ps0 = Inr ps"
  shows "part_type ps = part_type ps0"
proof -
  from assms obtain pt where pt: "part_type ps0 = Some pt"
    by (cases "part_type ps0") (auto simp: resolve_b_def)
  consider (trap) "pt = ''arm'' \<or> pt = ''trapezoid''"
    | (rect) "\<not> (pt = ''arm'' \<or> pt = ''trapezoid'')" "pt = ''rectangle''"
    | (circ) "\<not> (pt = ''arm'' \<or> pt = ''trapezoid'')" "pt \<noteq> ''rectangle''" "pt = ''circle''"
    | (other) "\<not> (pt = ''arm'' \<or> pt = ''trapezoid'')" "pt \<noteq> ''rectangle''" "pt \<noteq> ''circle''"
    by blast
  then show ?thesis
  proof cases
    case trap
    with assms pt show ?thesis by (auto simp: resolve_b_def and_then_Inr_iff)
  next
    case rect
    with assms pt show ?thesis by (auto simp: resolve_b_def and_then_Inr_iff)
  next
    case circ
    with assms pt show ?thesis by (auto simp: resolve_b_def and_then_Inr_iff)
  next
    case other
    with assms pt show ?thesis by (auto simp: resolve_b_def)
  qed
qed

lemma dims_b_part_type: "part_type (dims_b p ps) = part_type ps"
  by (simp add: dims_b_def Let_def split: option.splits)

lemma holes_b_part_type: "part_type (holes_b p ps) = part_type ps"
  by (simp add: holes_b_def Let_def split: option.splits)

lemma material_b_part_type: "part_type (material_b p ps) = part_type ps"
  by (simp add: material_b_def)

lemma target_force_b_part_type: "part_type (target_force_b p ps) = part_type ps"
  by (simp add: target_force_b_def split: option.splits)

lemma part_type_b_keyword: "part_type (part_type_b p defaults_b) = Some (keyword_type_b p)"
  by (simp add: part_type_b_def keyword_type_b_def defaults_b_def empty_params_def)

text \<open>
  Claim C6, as the code has it. In \<^verbatim>\<open>vectorflow.py\<close> and \<^verbatim>\<open>a.py\<close> the keywords \<^verbatim>\<open>arm\<close>,
  \<^verbatim>\<open>l-bracket\<close> (with or without its hyphen), \<^verbatim>\<open>l bracket\<close> and \<^verbatim>\<open>plate\<close> count only as
  whole words of the lower-cased prompt, and \<^verbatim>\<open>rectangl\<close> counts at the start of a word;
  for a prompt in which \<^verbatim>\<open>bar\<close> ends a word only if it also stands as a whole word, the
  part type is that of the first keyword found, in the order arm, l-bracket, plate,
  rectangle, and trapezoid when there is none. In \<^verbatim>\<open>b.py\<close> the keywords are tested as
  substrings: the part type is that of the first keyword that occurs anywhere in the
  lower-cased prompt, and trapezoid when none does.
\<close>

theorem part_type_by_keyword:
  "(parse_prompt_vf pr = Inr ps
      \<and> (word_end ''bar'' (lower pr) \<longrightarrow> whole_word ''bar'' (lower pr))
    \<longrightarrow> part_type ps = Some (keyword_type_vf (lower pr)))
   \<and> (parse_prompt_b pr = Inr ps \<longrightarrow> part_type ps = Some (keyword_type_b (lower pr)))"
proof (intro conjI impI)
  assume a: "parse_prompt_vf pr = Inr ps
      \<and> (word_end ''bar'' (lower pr) \<longrightarrow> whole_word ''bar'' (lower pr))"
  then have "part_type_vf (lower pr) = keyword_type_vf (lower pr)"
    by (simp add: part_type_vf_keyword)
  moreover from a have "part_type ps = Some (part_type_vf (lower pr))"
    unfolding parse_prompt_vf_def Let_def
    by (auto dest!: resolve_vf_part_type)
  ultimately show "part_type ps = Some (keyword_type_vf (lower pr))" by simp
next
  assume "parse_prompt_b pr = Inr ps"
  then have "part_type ps = part_type (part_type_b (lower pr) defaults_b)"
    unfolding parse_prompt_b_def Let_def
    by (auto dest!: resolve_b_part_type
        simp: target_force_b_part_type material_b_part_type holes_b_part_type dims_b_part_type)
  then show "part_type ps = Some (keyword_type_b (lower pr))"
    by (simp add: part_type_b_keyword)
qed

lemma parse_vf_alarm: "parse_prompt_vf alarm_prompt = Inr alarm_params_vf"
  by code_simp

lemma parse_b_alarm: "parse_prompt_b alarm_prompt = Inr alarm_params_b"
  by code_simp

lemma alarm_keywords:
  "word_end ''bar'' (lower alarm_prompt) \<and> whole_word ''bar'' (lower alarm_prompt)
   \<and> keyword_type_vf (lower alarm_prompt) = ''rectangle''
   \<and> keyword_type_b (lower alarm_prompt) = ''arm''"
  by code_simp

theorem part_type_by_keyword_witness:
  "parse_prompt_vf alarm_prompt = Inr alarm_params_vf
   \<and> word_end ''bar'' (lower alarm_prompt) \<and> whole_word ''bar'' (lower alarm_prompt)
   \<and> part_type alarm_params_vf = Some (keyword_type_vf (lower alarm_prompt))
   \<and> keyword_type_vf (lower alarm_prompt) = ''rectangle''
   \<and> parse_prompt_b alarm_prompt = Inr alarm_params_b
   \<and> part_type alarm_params_b = Some (keyword_type_b (lower alarm_prompt))
   \<and> keyword_type_b (lower alarm_prompt) = ''arm''"
  using part_type_by_keyword[of alarm_prompt alarm_params_vf]
    part_type_by_keyword[of alarm_prompt alarm_params_b]
    parse_vf_alarm parse_b_alarm alarm_keywords
  by simp

lemma parse_b_template: "parse_prompt_b template_prompt = Inr template_params_b"
  by code_simp

lemma parse_vf_plural: "parse_prompt_vf plural_prompt = Inr plural_params_vf"
  by code_simp

lemma no_keyword_examples:
  "no_keyword (lower template_prompt) \<and> no_keyword (lower plural_prompt)"
  by code_simp

text \<open>
  Neither prompt has a keyword as a whole word. \<^verbatim>\<open>b.py\<close> finds \<^verbatim>\<open>plate\<close> inside \<^verbatim>\<open>template\<close>
  and makes the part a circle; \<^verbatim>\<open>vectorflow.py\<close> and \<^verbatim>\<open>a.py\<close> find \<^verbatim>\<open>rectangl\<close> at the
  start of \<^verbatim>\<open>rectangles\<close> and make it a rectangle.
\<close>

theorem keyword_inside_word_counterexample:
  "no_keyword (lower template_prompt)
   \<and> parse_prompt_b template_prompt = Inr template_params_b
   \<and> part_type template_params_b = Some ''circle''
   \<and> part_type template_params_b \<noteq> Some ''trapezoid''
   \<and> no_keyword (lower plural_prompt)
   \<and> parse_prompt_vf plural_prompt = Inr plural_params_vf
   \<and> part_type plural_params_vf = Some ''rectangle''
   \<and> part_type plural_params_vf \<noteq> Some ''trapezoid''"
  by (simp add: no_keyword_examples parse_b_template parse_vf_plural template_params_b_def
      plural_params_vf_def empty_params_def)

end
